theory Spec2Isabelle
  imports Complex_Main
begin

section \<open>Hotel booking system: data model\<close>

text \<open>
  The development embeds the pricing service (\<^verbatim>\<open>services/pricing.service.ts\<close>), the room
  service (\<^verbatim>\<open>services/room.service.ts\<close>) and the booking controller
  (\<^verbatim>\<open>controllers/booking.controller.ts\<close>) of the repository.

  Conventions of the embedding:
  \<^item> A JavaScript \<^verbatim>\<open>Date\<close> is its time value, the number of milliseconds since the epoch
    (an \<open>int\<close>). The getters \<^verbatim>\<open>getDay\<close>, \<^verbatim>\<open>getMonth\<close>, \<^verbatim>\<open>getDate\<close> and the setter
    \<^verbatim>\<open>setDate\<close> work in the local time of the server; its time zone is a parameter of
    every operation that reads the calendar. Invalid dates are not modelled.
  \<^item> A JavaScript \<^verbatim>\<open>number\<close> holding money is an exact rational; rounding of doubles,
    \<^verbatim>\<open>NaN\<close> and infinities are not modelled.
  \<^item> A Prisma table is the list of its rows in primary-key order. Record fields carry a
    prefix naming their table, since field names are shared between tables.
  \<^item> Every call of the Prisma client may reject; the handlers catch the rejection and answer
    with status 500. The call sites that reject are a parameter of each operation. The
    foreign keys of the schema are not enforced by the tables of the model; a violated
    constraint is one of the reasons for a call to reject.
  \<^item> Where a query orders its rows by a column and takes the first, the database decides
    between rows that are equal in that column; its decision is a parameter too.
\<close>

type_synonym date = int
type_synonym number = rat

record RoomType =
  rt_id :: int
  rt_hotelId :: int
  rt_maxGuests :: int
  rt_basePrice :: number

record Room =
  room_id :: int
  room_hotelId :: int
  room_roomTypeId :: int
  room_status :: string

record Booking =
  bk_id :: int
  bk_userId :: int
  bk_hotelId :: int
  bk_checkIn :: date
  bk_checkOut :: date
  bk_totalAmount :: number
  bk_status :: string
  bk_guestName :: string
  bk_guestEmail :: string
  bk_specialRequests :: "string option"

record BookingItem =
  bi_id :: int
  bi_bookingId :: int
  bi_roomId :: int
  bi_pricePerNight :: number
  bi_nights :: int

record RoomPrice =
  rp_id :: int
  rp_roomTypeId :: int
  rp_startDate :: date
  rp_endDate :: date
  rp_price :: number
  rp_createdAt :: date

record db =
  roomTypes :: "RoomType list"
  rooms :: "Room list"
  bookings :: "Booking list"
  bookingItems :: "BookingItem list"
  roomPrices :: "RoomPrice list"

text \<open>The call sites of the Prisma client in the embedded code, and what a handler throws.\<close>

datatype store_call =
  RoomTypeFindUnique | RoomPriceFindFirst | RoomFindUnique | BookingFindFirst
  | BookingCreate | RoomUpdate | BookingFindUnique | BookingUpdate
  | BookingItemCount | RoomFindMany

datatype thrown = Error string | Rejected store_call | RecordNotFound

text \<open>
  The time zone of the server: the offset of local time from UTC in milliseconds, for a
  time value (\<open>utcOffset\<close>) and for a local time (\<open>localOffset\<close>, which decides what a
  local time that occurs twice or not at all stands for). The two differ only around a
  change of the offset.
\<close>

record TimeZone =
  utcOffset :: "int \<Rightarrow> int"
  localOffset :: "int \<Rightarrow> int"

text \<open>
  What the pricing code takes from its surroundings: the time zone, and the database's
  decision between rate overrides of equal creation time, as an index into the rows that
  are tied (read modulo their number).
\<close>

record env =
  zone :: TimeZone
  tieChoice :: "RoomPrice list \<Rightarrow> nat"

section \<open>JavaScript dates\<close>

definition msPerDay :: int where
  "msPerDay = 1000 * 60 * 60 * 24"

definition getTime :: "date \<Rightarrow> int" where
  "getTime d = d"

text \<open>
  Day number of a time value, and the civil date (year, month from 1, day of the month)
  of a day number in the proleptic Gregorian calendar.
\<close>

definition dayNumber :: "int \<Rightarrow> int" where
  "dayNumber t = t div msPerDay"

definition civil :: "int \<Rightarrow> int \<times> int \<times> int" where
  "civil z0 =
    (let z = z0 + 719468;
         era = z div 146097;
         doe = z - era * 146097;
         yoe = (doe - doe div 1460 + doe div 36524 - doe div 146096) div 365;
         doy = doe - (365 * yoe + yoe div 4 - yoe div 100);
         mp = (5 * doy + 2) div 153;
         d = doy - (153 * mp + 2) div 5 + 1;
         m = (if mp < 10 then mp + 3 else mp - 9);
         y = yoe + era * 400 + (if m \<le> 2 then 1 else 0)
     in (y, m, d))"

text \<open>
  The abstract operations of the language on a time value \<open>t\<close>: the weekday (0 is Sunday,
  6 is Saturday; the epoch was a Thursday), the month (0-indexed) and the day of the
  month.
\<close>

definition weekDay :: "int \<Rightarrow> int" where
  "weekDay t = (dayNumber t + 4) mod 7"

definition monthFromTime :: "int \<Rightarrow> int" where
  "monthFromTime t = fst (snd (civil (dayNumber t))) - 1"

definition dateFromTime :: "int \<Rightarrow> int" where
  "dateFromTime t = snd (snd (civil (dayNumber t)))"

text \<open>Local time of a time value, and the time value of a local time.\<close>

definition localTime :: "TimeZone \<Rightarrow> date \<Rightarrow> int" where
  "localTime z d = d + utcOffset z d"

definition utcTime :: "TimeZone \<Rightarrow> int \<Rightarrow> date" where
  "utcTime z t = t - localOffset z t"

text \<open>The getters of \<^verbatim>\<open>Date\<close>: they read the local time.\<close>

definition getDay :: "TimeZone \<Rightarrow> date \<Rightarrow> int" where
  "getDay z d = weekDay (localTime z d)"

definition getMonth :: "TimeZone \<Rightarrow> date \<Rightarrow> int" where
  "getMonth z d = monthFromTime (localTime z d)"

definition getDate :: "TimeZone \<Rightarrow> date \<Rightarrow> int" where
  "getDate z d = dateFromTime (localTime z d)"

text \<open>
  \<^verbatim>\<open>setDate(dt)\<close>: in local time, the day becomes day \<open>dt\<close> of the current month (counting
  on into the next months when \<open>dt\<close> is past its end) and the time within the day is
  kept; the result is the time value of that local time. The first day of the month of
  \<open>t\<close> has day number \<open>dayNumber t - (dateFromTime t - 1)\<close>.
\<close>

definition setDate :: "TimeZone \<Rightarrow> date \<Rightarrow> int \<Rightarrow> date" where
  "setDate z d dt =
     (let t = localTime z d;
          firstOfMonth = dayNumber t - (dateFromTime t - 1);
          day = firstOfMonth + dt - 1;
          newDate = day * msPerDay + t mod msPerDay
      in utcTime z newDate)"

section \<open>Pricing service\<close>

record PriceCalculationParams =
  roomTypeId :: int
  checkInDate :: date
  checkOutDate :: date
  guests :: int

record DailyPrice =
  date :: date
  basePrice :: number
  weekendSurcharge :: number
  seasonalSurcharge :: number
  occupancySurcharge :: number
  dailyTotal :: number

record PriceResult =
  dailyPrices :: "DailyPrice list"
  subtotal :: number
  totalDiscount :: number
  totalSurcharge :: number
  totalPrice :: number

definition WEEKEND_SURCHARGE_RATE :: number where
  "WEEKEND_SURCHARGE_RATE = 15 / 100"

definition SEASONAL_SURCHARGE_RATE :: number where
  "SEASONAL_SURCHARGE_RATE = 20 / 100"

definition OCCUPANCY_SURCHARGE_RATE :: number where
  "OCCUPANCY_SURCHARGE_RATE = 10 / 100"

definition LONG_STAY_DISCOUNT_DAYS :: int where
  "LONG_STAY_DISCOUNT_DAYS = 7"

definition LONG_STAY_DISCOUNT_RATE :: number where
  "LONG_STAY_DISCOUNT_RATE = 10 / 100"

text \<open>
  \<^verbatim>\<open>prisma.roomPrice.findFirst\<close> with \<^verbatim>\<open>orderBy: { createdAt: 'desc' }\<close>: a first row in
  descending order of creation time. The query names no other key, so between the rows of
  latest creation time the database decides.
\<close>

definition newest :: "RoomPrice list \<Rightarrow> RoomPrice list" where
  "newest ps = filter (\<lambda>p. list_all (\<lambda>q. rp_createdAt q \<le> rp_createdAt p) ps) ps"

definition findFirstNewest :: "(RoomPrice list \<Rightarrow> nat) \<Rightarrow> RoomPrice list \<Rightarrow> RoomPrice option" where
  "findFirstNewest choice ps =
     (case newest ps of
        [] \<Rightarrow> None
      | p # tied \<Rightarrow> Some ((p # tied) ! (choice (p # tied) mod length (p # tied))))"

definition matchingPrices :: "db \<Rightarrow> RoomType \<Rightarrow> date \<Rightarrow> RoomPrice list" where
  "matchingPrices s roomType d =
     filter (\<lambda>p. rp_roomTypeId p = rt_id roomType \<and> rp_startDate p \<le> d \<and> rp_endDate p \<ge> d)
       (roomPrices s)"

definition getDailyBasePrice ::
  "store_call set \<Rightarrow> env \<Rightarrow> db \<Rightarrow> RoomType \<Rightarrow> date \<Rightarrow> thrown + number" where
  "getDailyBasePrice rej e s roomType d =
     (if RoomPriceFindFirst \<in> rej then Inl (Rejected RoomPriceFindFirst)
      else case findFirstNewest (tieChoice e) (matchingPrices s roomType d) of
             Some specificPricing \<Rightarrow> Inr (rp_price specificPricing)
           | None \<Rightarrow> Inr (rt_basePrice roomType))"

definition isWeekend :: "TimeZone \<Rightarrow> date \<Rightarrow> bool" where
  "isWeekend z d = (let day = getDay z d in day = 0 \<or> day = 6)"

definition isHighSeason :: "TimeZone \<Rightarrow> date \<Rightarrow> bool" where
  "isHighSeason z d =
     (let month = getMonth z d + 1; day = getDate z d
      in if month = 12 \<and> day \<ge> 15 then True
         else if month = 1 \<and> day \<le> 15 then True
         else if month \<ge> 7 \<and> month \<le> 8 then True
         else False)"

definition calculateOccupancySurcharge :: "RoomType \<Rightarrow> int \<Rightarrow> number \<Rightarrow> number" where
  "calculateOccupancySurcharge roomType g base =
     (let extraGuests = max 0 (g - rt_maxGuests roomType)
      in if extraGuests \<le> 0 then 0
         else base * OCCUPANCY_SURCHARGE_RATE * of_int extraGuests)"

text \<open>
  The body of the loop over the nights, for the night with index \<open>i\<close>:
  \<^verbatim>\<open>const date = new Date(checkInDate); date.setDate(date.getDate() + i)\<close>, then the
  prices of that date.
\<close>

definition priceNight ::
  "store_call set \<Rightarrow> env \<Rightarrow> db \<Rightarrow> RoomType \<Rightarrow> int \<Rightarrow> date \<Rightarrow> int \<Rightarrow> thrown + DailyPrice" where
  "priceNight rej e s roomType g checkIn i =
     (let d = setDate (zone e) checkIn (getDate (zone e) checkIn + i)
      in case getDailyBasePrice rej e s roomType d of
           Inl err \<Rightarrow> Inl err
         | Inr dailyBasePrice \<Rightarrow>
             (let weekend = (if isWeekend (zone e) d
                             then dailyBasePrice * WEEKEND_SURCHARGE_RATE else 0);
                  seasonal = (if isHighSeason (zone e) d
                              then dailyBasePrice * SEASONAL_SURCHARGE_RATE else 0);
                  occupancy = calculateOccupancySurcharge roomType g dailyBasePrice
              in Inr \<lparr> date = d, basePrice = dailyBasePrice, weekendSurcharge = weekend,
                       seasonalSurcharge = seasonal, occupancySurcharge = occupancy,
                       dailyTotal = dailyBasePrice + weekend + seasonal + occupancy \<rparr>))"

text \<open>\<^verbatim>\<open>for (let i = 0; i < nights; i++)\<close>, pushing each night onto \<open>acc\<close>.\<close>

function priceLoop ::
  "store_call set \<Rightarrow> env \<Rightarrow> db \<Rightarrow> RoomType \<Rightarrow> int \<Rightarrow> date \<Rightarrow> int \<Rightarrow> int \<Rightarrow> DailyPrice list
     \<Rightarrow> thrown + DailyPrice list" where
  "priceLoop rej e s roomType g checkIn nights i acc =
     (if i < nights then
        (case priceNight rej e s roomType g checkIn i of
           Inl err \<Rightarrow> Inl err
         | Inr day \<Rightarrow> priceLoop rej e s roomType g checkIn nights (i + 1) (acc @ [day]))
      else Inr acc)"
  by pat_completeness auto
termination
  by (relation "measure (\<lambda>(rej, e, s, roomType, g, checkIn, nights, i, acc). nat (nights - i))")
     auto

declare priceLoop.simps [simp del]

definition nightsBetween :: "date \<Rightarrow> date \<Rightarrow> int" where
  "nightsBetween checkIn checkOut =
     \<lceil>(of_int (getTime checkOut - getTime checkIn) :: rat) / of_int msPerDay\<rceil>"

definition calculateTotalPrice ::
  "store_call set \<Rightarrow> env \<Rightarrow> db \<Rightarrow> PriceCalculationParams \<Rightarrow> thrown + PriceResult" where
  "calculateTotalPrice rej e s params =
     (if RoomTypeFindUnique \<in> rej then Inl (Rejected RoomTypeFindUnique)
      else case find (\<lambda>t. rt_id t = roomTypeId params) (roomTypes s) of
        None \<Rightarrow> Inl (Error ''Room type not found'')
      | Some roomType \<Rightarrow>
          (let nights = nightsBetween (checkInDate params) (checkOutDate params)
           in case priceLoop rej e s roomType (guests params) (checkInDate params) nights 0 [] of
                Inl err \<Rightarrow> Inl err
              | Inr days \<Rightarrow>
                  (let sub = foldl (\<lambda>sum day. sum + dailyTotal day) 0 days;
                       disc = (if nights \<ge> LONG_STAY_DISCOUNT_DAYS
                               then sub * LONG_STAY_DISCOUNT_RATE else 0);
                       sur = foldl (\<lambda>sum day. sum + weekendSurcharge day
                                       + seasonalSurcharge day + occupancySurcharge day) 0 days
                   in Inr \<lparr> dailyPrices = days, subtotal = sub, totalDiscount = disc,
                            totalSurcharge = sur, totalPrice = sub - disc \<rparr>)))"

section \<open>Room service\<close>

text \<open>The \<^verbatim>\<open>booking\<close> relation of a booking item: the booking the item belongs to.\<close>

definition itemBooking :: "db \<Rightarrow> BookingItem \<Rightarrow> Booking option" where
  "itemBooking s item = find (\<lambda>b. bk_id b = bi_bookingId item) (bookings s)"

definition isRoomAvailable :: "store_call set \<Rightarrow> db \<Rightarrow> int \<Rightarrow> date \<Rightarrow> date \<Rightarrow> thrown + bool" where
  "isRoomAvailable rej s roomId checkIn checkOut =
     (if BookingItemCount \<in> rej then Inl (Rejected BookingItemCount)
      else
        (let overlappingBookings =
               length (filter (\<lambda>item. bi_roomId item = roomId \<and>
                          (case itemBooking s item of
                             None \<Rightarrow> False
                           | Some b \<Rightarrow> bk_checkIn b \<le> checkOut \<and> bk_checkOut b \<ge> checkIn))
                        (bookingItems s))
         in Inr (overlappingBookings = 0)))"

definition getAvailableRooms ::
  "store_call set \<Rightarrow> db \<Rightarrow> int \<Rightarrow> date \<Rightarrow> date \<Rightarrow> int \<Rightarrow> thrown + Room list" where
  "getAvailableRooms rej s hotelId checkIn checkOut g =
     (if RoomFindMany \<in> rej then Inl (Rejected RoomFindMany)
      else Inr (filter (\<lambda>room.
             room_hotelId room = hotelId \<and>
             (case find (\<lambda>t. rt_id t = room_roomTypeId room) (roomTypes s) of
                None \<Rightarrow> False
              | Some roomType \<Rightarrow> rt_maxGuests roomType \<ge> g) \<and>
             \<not> list_ex (\<lambda>item. bi_roomId item = room_id room \<and>
                   (case itemBooking s item of
                      None \<Rightarrow> False
                    | Some b \<Rightarrow> (bk_checkIn b \<le> checkOut \<and> bk_checkOut b \<ge> checkIn) \<and>
                               bk_status b \<noteq> ''cancelled''))
                 (bookingItems s))
           (rooms s)))"

section \<open>Booking controller\<close>

text \<open>
  A handler answers with a status code and either a message (\<^verbatim>\<open>success: false\<close>) or data
  (\<^verbatim>\<open>success: true\<close>), and leaves the store in a new state.
\<close>

datatype 'a reply = Fail (status: nat) (message: string) | Success (status: nat) (payload: 'a)

record User =
  user_id :: int
  user_role :: string

text \<open>
  The request of \<^verbatim>\<open>createBooking\<close>: the authenticated user and the fields of the body.
  \<open>None\<close> is an absent field; for the two dates \<open>None\<close> also stands for the empty string,
  and \<open>Some d\<close> for a string that \<^verbatim>\<open>new Date\<close> parses to \<open>d\<close>.
\<close>

record CreateBookingRequest =
  req_user :: "User option"
  req_roomId :: "int option"
  req_checkInDate :: "date option"
  req_checkOutDate :: "date option"
  req_guests :: "int option"
  req_guestName :: string
  req_guestEmail :: string
  req_specialRequests :: "string option"

record Created =
  created_booking :: Booking
  created_item :: BookingItem
  created_price :: PriceResult

text \<open>What the handler holds when it has passed every check and priced the stay.\<close>

record Prepared =
  prep_user :: User
  prep_room :: Room
  prep_roomType :: "RoomType option"
  prep_checkIn :: date
  prep_checkOut :: date
  prep_guestName :: string
  prep_guestEmail :: string
  prep_specialRequests :: "string option"
  prep_price :: PriceResult

text \<open>Identifiers are \<^verbatim>\<open>AUTO_INCREMENT\<close> columns.\<close>

definition nextId :: "int list \<Rightarrow> int" where
  "nextId ids = foldl max 0 ids + 1"

text \<open>\<^verbatim>\<open>prisma.room.update\<close> of the status of one room; it throws when the room is absent.\<close>

definition updateRoomStatus :: "db \<Rightarrow> int \<Rightarrow> string \<Rightarrow> thrown + db" where
  "updateRoomStatus s roomId st =
     (if list_ex (\<lambda>r. room_id r = roomId) (rooms s)
      then Inr (s\<lparr>rooms := map (\<lambda>r. if room_id r = roomId then r\<lparr>room_status := st\<rparr> else r)
                              (rooms s)\<rparr>)
      else Inl RecordNotFound)"

text \<open>
  The query for an existing booking of the room over the requested dates
  (\<^verbatim>\<open>prisma.booking.findFirst\<close> in \<^verbatim>\<open>createBooking\<close>).
\<close>

definition existingBooking :: "db \<Rightarrow> int \<Rightarrow> date \<Rightarrow> date \<Rightarrow> Booking option" where
  "existingBooking s roomId checkIn checkOut =
     find (\<lambda>b. list_ex (\<lambda>item. bi_bookingId item = bk_id b \<and> bi_roomId item = roomId \<and>
                    (case itemBooking s item of
                       None \<Rightarrow> False
                     | Some b' \<Rightarrow> bk_checkIn b' \<le> checkOut \<and> bk_checkOut b' \<ge> checkIn))
                  (bookingItems s))
          (bookings s)"

text \<open>The handler up to and including the price calculation: it reads the store only.\<close>

definition createBooking_check ::
  "store_call set \<Rightarrow> env \<Rightarrow> db \<Rightarrow> CreateBookingRequest \<Rightarrow> Created reply + Prepared" where
  "createBooking_check rej e s req =
     (case req_user req of
        None \<Rightarrow> Inl (Fail 401 ''Authentication required to create a booking'')
      | Some u \<Rightarrow>
        if user_id u = 0 then Inl (Fail 401 ''Authentication required to create a booking'')
        else
          (case (req_roomId req, req_checkInDate req, req_checkOutDate req, req_guests req) of
             (Some roomId, Some checkIn, Some checkOut, Some g) \<Rightarrow>
               if roomId = 0 \<or> g = 0 \<or> req_guestName req = [] \<or> req_guestEmail req = []
               then Inl (Fail 400 ''Missing required fields'')
               else if RoomFindUnique \<in> rej then Inl (Fail 500 ''Error creating booking'')
               else
                 (case find (\<lambda>r. room_id r = roomId) (rooms s) of
                    None \<Rightarrow> Inl (Fail 404 ''Room not found'')
                  | Some room \<Rightarrow>
                      if room_status room \<noteq> ''available''
                      then Inl (Fail 400 ''Room is not available for booking'')
                      else if BookingFindFirst \<in> rej then Inl (Fail 500 ''Error creating booking'')
                      else
                        (case existingBooking s roomId checkIn checkOut of
                           Some b \<Rightarrow> Inl (Fail 400 ''Room is already booked for the selected dates'')
                         | None \<Rightarrow>
                             (case calculateTotalPrice rej e s
                                     \<lparr> roomTypeId = room_roomTypeId room, checkInDate = checkIn,
                                       checkOutDate = checkOut, guests = g \<rparr> of
                                Inl err \<Rightarrow> Inl (Fail 500 ''Error creating booking'')
                              | Inr priceResult \<Rightarrow>
                                  Inr \<lparr> prep_user = u, prep_room = room,
                                        prep_roomType =
                                          find (\<lambda>t. rt_id t = room_roomTypeId room) (roomTypes s),
                                        prep_checkIn = checkIn, prep_checkOut = checkOut,
                                        prep_guestName = req_guestName req,
                                        prep_guestEmail = req_guestEmail req,
                                        prep_specialRequests = req_specialRequests req,
                                        prep_price = priceResult \<rparr>)))
           | _ \<Rightarrow> Inl (Fail 400 ''Missing required fields'')))"

text \<open>
  \<^verbatim>\<open>priceResult.dailyPrices[0]?.totalPrice || room.roomType.basePrice\<close>: the right operand
  is taken when the list is empty and when the first total is 0 (a falsy number).
\<close>

definition pricePerNightOf :: "PriceResult \<Rightarrow> RoomType option \<Rightarrow> thrown + number" where
  "pricePerNightOf priceResult roomType =
     (let fallback = (case roomType of
                        None \<Rightarrow> Inl (Error ''TypeError'')
                      | Some t \<Rightarrow> Inr (rt_basePrice t))
      in case dailyPrices priceResult of
           [] \<Rightarrow> fallback
         | day # _ \<Rightarrow> if dailyTotal day = 0 then fallback else Inr (dailyTotal day))"

text \<open>
  The rows that \<^verbatim>\<open>prisma.booking.create\<close> inserts for \<^verbatim>\<open>bookingData\<close>: the booking and,
  by the nested \<^verbatim>\<open>bookingItems: { create: ... }\<close>, its one item. The call inserts both
  or, when it rejects, neither.
\<close>

definition bookingRow :: "db \<Rightarrow> Prepared \<Rightarrow> Booking" where
  "bookingRow s p =
     \<lparr> bk_id = nextId (map bk_id (bookings s)),
       bk_userId = user_id (prep_user p),
       bk_hotelId = room_hotelId (prep_room p),
       bk_checkIn = prep_checkIn p, bk_checkOut = prep_checkOut p,
       bk_totalAmount = totalPrice (prep_price p),
       bk_status = ''confirmed'',
       bk_guestName = prep_guestName p,
       bk_guestEmail = prep_guestEmail p,
       bk_specialRequests = prep_specialRequests p \<rparr>"

definition bookingItemRow :: "db \<Rightarrow> Prepared \<Rightarrow> number \<Rightarrow> BookingItem" where
  "bookingItemRow s p perNight =
     \<lparr> bi_id = nextId (map bi_id (bookingItems s)),
       bi_bookingId = nextId (map bk_id (bookings s)),
       bi_roomId = room_id (prep_room p),
       bi_pricePerNight = perNight,
       bi_nights = int (length (dailyPrices (prep_price p))) \<rparr>"

definition bookingCreate :: "db \<Rightarrow> Booking \<Rightarrow> BookingItem \<Rightarrow> db" where
  "bookingCreate s booking item =
     s\<lparr> bookings := bookings s @ [booking], bookingItems := bookingItems s @ [item] \<rparr>"

text \<open>
  The rest of the handler: it creates the booking with its item, then updates the room.
  These are two calls of the store, one after the other, outside any transaction.
\<close>

definition createBooking_write :: "store_call set \<Rightarrow> db \<Rightarrow> Prepared \<Rightarrow> Created reply \<times> db" where
  "createBooking_write rej s p =
     (case pricePerNightOf (prep_price p) (prep_roomType p) of
        Inl e \<Rightarrow> (Fail 500 ''Error creating booking'', s)
      | Inr perNight \<Rightarrow>
          if BookingCreate \<in> rej then (Fail 500 ''Error creating booking'', s)
          else
            (let booking = bookingRow s p;
                 item = bookingItemRow s p perNight;
                 s1 = bookingCreate s booking item
             in if RoomUpdate \<in> rej then (Fail 500 ''Error creating booking'', s1)
                else
                  (case updateRoomStatus s1 (room_id (prep_room p)) ''booked'' of
                     Inl e \<Rightarrow> (Fail 500 ''Error creating booking'', s1)
                   | Inr s2 \<Rightarrow>
                       (Success 201 \<lparr> created_booking = booking, created_item = item,
                                      created_price = prep_price p \<rparr>, s2))))"

definition createBooking ::
  "store_call set \<Rightarrow> env \<Rightarrow> db \<Rightarrow> CreateBookingRequest \<Rightarrow> Created reply \<times> db" where
  "createBooking rej e s req =
     (case createBooking_check rej e s req of
        Inl r \<Rightarrow> (r, s)
      | Inr p \<Rightarrow> createBooking_write rej s p)"

text \<open>
  \<^verbatim>\<open>cancelBooking\<close>. \<^verbatim>\<open>Promise.all\<close> starts the update of every room of the booking;
  it rejects when one of them does, the others still being applied.
\<close>

definition setCancelled :: "db \<Rightarrow> int \<Rightarrow> db" where
  "setCancelled s bookingId =
     s\<lparr>bookings := map (\<lambda>b. if bk_id b = bookingId then b\<lparr>bk_status := ''cancelled''\<rparr> else b)
                       (bookings s)\<rparr>"

fun releaseRooms :: "db \<Rightarrow> BookingItem list \<Rightarrow> bool \<times> db" where
  "releaseRooms s [] = (True, s)"
| "releaseRooms s (item # items) =
     (case updateRoomStatus s (bi_roomId item) ''available'' of
        Inl e \<Rightarrow> (False, snd (releaseRooms s items))
      | Inr s' \<Rightarrow> releaseRooms s' items)"

definition cancelBooking ::
  "store_call set \<Rightarrow> db \<Rightarrow> User option \<Rightarrow> int \<Rightarrow> Booking reply \<times> db" where
  "cancelBooking rej s user bookingId =
     (if BookingFindUnique \<in> rej then (Fail 500 ''Error cancelling booking'', s)
      else case find (\<lambda>b. bk_id b = bookingId) (bookings s) of
        None \<Rightarrow> (Fail 404 ''Booking not found'', s)
      | Some booking \<Rightarrow>
          (let items = filter (\<lambda>item. bi_bookingId item = bk_id booking) (bookingItems s)
           in if map_option user_id user \<noteq> Some (bk_userId booking) \<and>
                 map_option user_role user \<noteq> Some ''ADMIN'' \<and>
                 map_option user_role user \<noteq> Some ''MANAGER''
              then (Fail 403 ''Not authorized to cancel this booking'', s)
              else if BookingUpdate \<in> rej then (Fail 500 ''Error cancelling booking'', s)
              else
                (let s1 = setCancelled s bookingId;
                     cancelledBooking = booking\<lparr>bk_status := ''cancelled''\<rparr>
                 in if RoomUpdate \<in> rej then (Fail 500 ''Error cancelling booking'', s1)
                    else
                      (case releaseRooms s1 items of
                         (False, s2) \<Rightarrow> (Fail 500 ''Error cancelling booking'', s2)
                       | (True, s2) \<Rightarrow> (Success 200 cancelledBooking, s2)))))"

section \<open>The specification's reading of the calendar\<close>

text \<open>
  The high-season windows in the words of the specification: December 15 to 31, January 1
  to 15, and July 1 to August 31, each inclusive. A day of the year is the pair of its
  month (1 to 12) and its day of the month, ordered lexicographically; both are read in
  the local time of the server.
\<close>

definition monthDay_le :: "int \<times> int \<Rightarrow> int \<times> int \<Rightarrow> bool" where
  "monthDay_le a b = (fst a < fst b \<or> (fst a = fst b \<and> snd a \<le> snd b))"

definition spec_highSeason :: "TimeZone \<Rightarrow> date \<Rightarrow> bool" where
  "spec_highSeason z d =
     (let md = (getMonth z d + 1, getDate z d)
      in (monthDay_le (12, 15) md \<and> monthDay_le md (12, 31)) \<or>
         (monthDay_le (1, 1) md \<and> monthDay_le md (1, 15)) \<or>
         (monthDay_le (7, 1) md \<and> monthDay_le md (8, 31)))"

section \<open>Example data\<close>

text \<open>
  One hotel with one room of one category (base price 100, capacity 2), and the time
  values of some days at midnight UTC.
\<close>

definition ex_type :: RoomType where
  "ex_type = \<lparr> rt_id = 1, rt_hotelId = 1, rt_maxGuests = 2, rt_basePrice = 100 \<rparr>"

definition ex_room :: Room where
  "ex_room = \<lparr> room_id = 1, room_hotelId = 1, room_roomTypeId = 1, room_status = ''available'' \<rparr>"

definition ex_db :: db where
  "ex_db = \<lparr> roomTypes = [ex_type], rooms = [ex_room], bookings = [], bookingItems = [],
             roomPrices = [] \<rparr>"

definition mar03 :: date where "mar03 = 1740960000000"
definition mar09 :: date where "mar09 = 1741478400000"
definition mar10 :: date where "mar10 = 1741564800000"
definition dec19 :: date where "dec19 = 1766102400000"
definition dec20 :: date where "dec20 = 1766188800000"
definition dec21 :: date where "dec21 = 1766275200000"
definition dec22 :: date where "dec22 = 1766361600000"
definition dec23 :: date where "dec23 = 1766448000000"

text \<open>
  Three time zones: UTC; a zone five hours west of UTC all year; and a zone that is four
  hours west of UTC until 2025-11-02 06:00 UTC and five hours west from then on, as the
  east coast of North America is when daylight saving time ends. A local time of the
  hour that occurs twice stands for its first occurrence.
\<close>

definition utc :: TimeZone where
  "utc = \<lparr> utcOffset = (\<lambda>t. 0), localOffset = (\<lambda>t. 0) \<rparr>"

definition ex_zone_west :: TimeZone where
  "ex_zone_west = \<lparr> utcOffset = (\<lambda>t. - 18000000), localOffset = (\<lambda>t. - 18000000) \<rparr>"

definition ex_zone_dst :: TimeZone where
  "ex_zone_dst =
     \<lparr> utcOffset = (\<lambda>t. if t < 1762063200000 then - 14400000 else - 18000000),
       localOffset = (\<lambda>t. if t < 1762063200000 - 14400000 then - 14400000 else - 18000000) \<rparr>"

text \<open>A server at UTC whose database takes the first of the tied rows.\<close>

definition ex_env :: env where
  "ex_env = \<lparr> zone = utc, tieChoice = (\<lambda>tied. 0) \<rparr>"

text \<open>Servers in the other two zones, and a database that takes the second tied row.\<close>

definition ex_env_west :: env where
  "ex_env_west = ex_env\<lparr> zone := ex_zone_west \<rparr>"

definition ex_env_dst :: env where
  "ex_env_dst = ex_env\<lparr> zone := ex_zone_dst \<rparr>"

definition ex_env_second :: env where
  "ex_env_second = ex_env\<lparr> tieChoice := (\<lambda>tied. 1) \<rparr>"

text \<open>
  Midnight of December 20 and 22 in the local time of the western zone, and midnight of
  November 1, 2 and 3 in the local time of the zone that changes its offset.
\<close>

definition dec20_west :: date where "dec20_west = 1766206800000"
definition dec22_west :: date where "dec22_west = 1766379600000"
definition nov01_local :: date where "nov01_local = 1761969600000"
definition nov02_local :: date where "nov02_local = 1762056000000"
definition nov03_local :: date where "nov03_local = 1762146000000"

definition stay :: "date \<Rightarrow> date \<Rightarrow> int \<Rightarrow> PriceCalculationParams" where
  "stay checkIn checkOut g =
     \<lparr> roomTypeId = 1, checkInDate = checkIn, checkOutDate = checkOut, guests = g \<rparr>"

text \<open>Two rate overrides of the category that meet on December 22.\<close>

definition ex_override1 :: RoomPrice where
  "ex_override1 = \<lparr> rp_id = 1, rp_roomTypeId = 1, rp_startDate = dec20, rp_endDate = dec22,
                     rp_price = 150, rp_createdAt = 1000 \<rparr>"

definition ex_override2 :: RoomPrice where
  "ex_override2 = \<lparr> rp_id = 2, rp_roomTypeId = 1, rp_startDate = dec22, rp_endDate = dec22,
                     rp_price = 180, rp_createdAt = 2000 \<rparr>"

definition ex_db_overrides :: db where
  "ex_db_overrides = ex_db\<lparr> roomPrices := [ex_override1, ex_override2] \<rparr>"

text \<open>The same two overrides with one creation time.\<close>

definition ex_db_tied :: db where
  "ex_db_tied = ex_db\<lparr> roomPrices := [ex_override1, ex_override2\<lparr> rp_createdAt := 1000 \<rparr>] \<rparr>"

section \<open>Calls of the reserve handler in sequence and interleaved\<close>

text \<open>
  The reserve handler called once for each request of a list, each call returning before
  the next one starts.
\<close>

fun reserveAll ::
  "env \<Rightarrow> db \<Rightarrow> (store_call set \<times> CreateBookingRequest) list \<Rightarrow> Created reply list \<times> db"
  where
  "reserveAll e s [] = ([], s)"
| "reserveAll e s ((rej, req) # rest) =
     (case createBooking rej e s req of
        (reply, s1) \<Rightarrow>
          (case reserveAll e s1 rest of (replies, s2) \<Rightarrow> (reply # replies, s2)))"

text \<open>
  Two calls of the handler, the second one entering while the first one waits for the
  store: both run their checks and price calculation on the same state before either
  writes. The handler is an \<^verbatim>\<open>async\<close> function without a lock or a transaction, so the
  runtime may schedule it so.
\<close>

definition reserveInterleaved ::
  "store_call set \<Rightarrow> env \<Rightarrow> db \<Rightarrow> CreateBookingRequest \<Rightarrow> CreateBookingRequest
     \<Rightarrow> Created reply \<times> Created reply \<times> db" where
  "reserveInterleaved rej e s reqA reqB =
     (case (createBooking_check rej e s reqA, createBooking_check rej e s reqB) of
        (Inl replyA, Inl replyB) \<Rightarrow> (replyA, replyB, s)
      | (Inl replyA, Inr pB) \<Rightarrow>
          (case createBooking_write rej s pB of (replyB, s1) \<Rightarrow> (replyA, replyB, s1))
      | (Inr pA, Inl replyB) \<Rightarrow>
          (case createBooking_write rej s pA of (replyA, s1) \<Rightarrow> (replyA, replyB, s1))
      | (Inr pA, Inr pB) \<Rightarrow>
          (case createBooking_write rej s pA of
             (replyA, s1) \<Rightarrow>
               (case createBooking_write rej s1 pB of
                  (replyB, s2) \<Rightarrow> (replyA, replyB, s2))))"

section \<open>Example requests and runs\<close>

fun succeeded :: "'a reply \<Rightarrow> bool" where
  "succeeded (Success n x) = True"
| "succeeded (Fail n m) = False"

definition ex_user :: User where
  "ex_user = \<lparr> user_id = 7, user_role = ''customer'' \<rparr>"

definition ex_stranger :: User where
  "ex_stranger = \<lparr> user_id = 8, user_role = ''customer'' \<rparr>"

definition ex_request :: "date \<Rightarrow> date \<Rightarrow> CreateBookingRequest" where
  "ex_request checkIn checkOut =
     \<lparr> req_user = Some ex_user, req_roomId = Some 1, req_checkInDate = Some checkIn,
       req_checkOutDate = Some checkOut, req_guests = Some 2, req_guestName = ''Ada'',
       req_guestEmail = ''ada@example.org'', req_specialRequests = None \<rparr>"

text \<open>The store after room 1 was reserved for December 20 to 22, and after that
  reservation was cancelled.\<close>

definition ex_db_reserved :: db where
  "ex_db_reserved = snd (createBooking {} ex_env ex_db (ex_request dec20 dec22))"

definition ex_db_cancelled :: db where
  "ex_db_cancelled = snd (cancelBooking {} ex_db_reserved (Some ex_user) 1)"

text \<open>An override that makes the night of December 20 free of charge.\<close>

definition ex_free_night :: RoomPrice where
  "ex_free_night = \<lparr> rp_id = 1, rp_roomTypeId = 1, rp_startDate = dec20, rp_endDate = dec20,
                      rp_price = 0, rp_createdAt = 1000 \<rparr>"

definition ex_db_free_night :: db where
  "ex_db_free_night = ex_db\<lparr> roomPrices := [ex_free_night] \<rparr>"

section \<open>Lemmas about dates and the pricing loop\<close>

lemma nightsBetween_div: "nightsBetween ci co = - ((ci - co) div msPerDay)"
  unfolding nightsBetween_def getTime_def by (simp only: ceiling_divide_eq_div) simp

lemma msPerDay_pos: "0 < msPerDay"
  by (simp add: msPerDay_def)

lemma night_before_checkOut:
  "ci + k * msPerDay < co \<longleftrightarrow> k < nightsBetween ci co"
proof -
  have pos: "(0::rat) < of_int msPerDay" using msPerDay_pos by simp
  have "k < nightsBetween ci co \<longleftrightarrow> (of_int k :: rat) < of_int (co - ci) / of_int msPerDay"
    by (simp add: nightsBetween_def getTime_def less_ceiling_iff)
  also have "\<dots> \<longleftrightarrow> (of_int k :: rat) * of_int msPerDay < of_int (co - ci)"
    using pos by (simp add: pos_less_divide_eq)
  also have "\<dots> \<longleftrightarrow> (of_int (k * msPerDay) :: rat) < of_int (co - ci)"
    by simp
  also have "\<dots> \<longleftrightarrow> k * msPerDay < co - ci"
    by (simp only: of_int_less_iff)
  also have "\<dots> \<longleftrightarrow> ci + k * msPerDay < co"
    by auto
  finally show ?thesis by simp
qed

lemma day_of_month_bounds:
  fixes doy :: int
  shows "1 \<le> doy - (153 * ((5 * doy + 2) div 153) + 2) div 5 + 1"
    and "doy - (153 * ((5 * doy + 2) div 153) + 2) div 5 + 1 \<le> 31"
proof -
  define mp where "mp = (5 * doy + 2) div 153"
  define r where "r = (5 * doy + 2) mod 153"
  have eq: "5 * doy + 2 = 153 * mp + r" and r: "0 \<le> r" "r < 153"
    by (simp_all add: mp_def r_def)
  define q where "q = (153 * mp + 2) div 5"
  define t where "t = (153 * mp + 2) mod 5"
  have eq2: "153 * mp + 2 = 5 * q + t" and t: "0 \<le> t" "t < 5"
    by (simp_all add: q_def t_def)
  show "1 \<le> doy - (153 * ((5 * doy + 2) div 153) + 2) div 5 + 1"
    using eq r eq2 t unfolding mp_def[symmetric] q_def[symmetric] by linarith
  show "doy - (153 * ((5 * doy + 2) div 153) + 2) div 5 + 1 \<le> 31"
    using eq r eq2 t unfolding mp_def[symmetric] q_def[symmetric] by linarith
qed

lemma getDate_bounds: "1 \<le> getDate z d" "getDate z d \<le> 31"
  unfolding getDate_def dateFromTime_def civil_def Let_def snd_conv
  by (rule day_of_month_bounds)+

lemma isHighSeason_spec: "isHighSeason z d = spec_highSeason z d"
  using getDate_bounds[of z d]
  by (auto simp add: isHighSeason_def spec_highSeason_def monthDay_le_def Let_def)

text \<open>
  Setting the day of the month to the current one plus \<open>i\<close> moves the local time by \<open>i\<close>
  days; in a zone with one offset all year this is a move of the time value by \<open>i\<close> days.
\<close>

lemma setDate_getDate:
  "setDate z d (getDate z d + i) = utcTime z (localTime z d + i * msPerDay)"
proof -
  let ?t = "localTime z d"
  have "(dayNumber ?t - (dateFromTime ?t - 1) + (dateFromTime ?t + i) - 1) * msPerDay
          + ?t mod msPerDay
        = (?t div msPerDay) * msPerDay + ?t mod msPerDay + i * msPerDay"
    by (simp add: dayNumber_def algebra_simps)
  also have "\<dots> = ?t + i * msPerDay" by simp
  finally show ?thesis by (simp add: setDate_def getDate_def Let_def)
qed

lemma fixed_offset_shift:
  assumes "\<forall>t. utcOffset z t = c" and "\<forall>t. localOffset z t = c"
  shows "utcTime z (localTime z d + x) = d + x"
  using assms by (simp add: utcTime_def localTime_def)

lemma foldl_add_sum_list:
  "foldl (\<lambda>sum x. sum + f x) a xs = a + sum_list (map f xs)"
  for a :: "'a::comm_monoid_add"
  by (induction xs arbitrary: a) (simp_all add: add.assoc)

lemma priceLoop_Inr:
  "priceLoop rej e s roomType g checkIn nights i acc = Inr days \<Longrightarrow>
     (\<forall>j\<in>set [i..nights - 1]. \<exists>day. priceNight rej e s roomType g checkIn j = Inr day) \<and>
     days = acc @ map (\<lambda>j. projr (priceNight rej e s roomType g checkIn j)) [i..nights - 1]"
proof (induction rej e s roomType g checkIn nights i acc rule: priceLoop.induct)
  case (1 rej e s roomType g checkIn nights i acc)
  show ?case
  proof (cases "i < nights")
    case False
    with "1.prems" show ?thesis by (simp add: priceLoop.simps)
  next
    case True
    then have up: "[i..nights - 1] = i # [i + 1..nights - 1]"
      by (simp add: upto_rec1)
    from True "1.prems" obtain day where
      night: "priceNight rej e s roomType g checkIn i = Inr day" and
      rest: "priceLoop rej e s roomType g checkIn nights (i + 1) (acc @ [day]) = Inr days"
      by (subst (asm) priceLoop.simps) (auto split: sum.splits)
    from "1.IH"[OF True night rest] night up show ?thesis by simp
  qed
qed

lemma priceNight_Inr:
  assumes "priceNight rej e s roomType g checkIn i = Inr day"
  shows "date day = utcTime (zone e) (localTime (zone e) checkIn + i * msPerDay)"
    and "getDailyBasePrice rej e s roomType (date day) = Inr (basePrice day)"
    and "weekendSurcharge day =
           (if isWeekend (zone e) (date day) then basePrice day * WEEKEND_SURCHARGE_RATE else 0)"
    and "seasonalSurcharge day =
           (if isHighSeason (zone e) (date day) then basePrice day * SEASONAL_SURCHARGE_RATE else 0)"
    and "occupancySurcharge day = calculateOccupancySurcharge roomType g (basePrice day)"
    and "dailyTotal day = basePrice day + weekendSurcharge day + seasonalSurcharge day
           + occupancySurcharge day"
  using assms
  by (auto simp add: priceNight_def Let_def setDate_getDate[symmetric] split: sum.splits)

lemma calculateTotalPrice_Inr:
  assumes "calculateTotalPrice rej e s params = Inr r"
  obtains roomType where
    "find (\<lambda>t. rt_id t = roomTypeId params) (roomTypes s) = Some roomType"
    "priceLoop rej e s roomType (guests params) (checkInDate params)
       (nightsBetween (checkInDate params) (checkOutDate params)) 0 [] = Inr (dailyPrices r)"
    "subtotal r = sum_list (map dailyTotal (dailyPrices r))"
    "totalDiscount r =
       (if nightsBetween (checkInDate params) (checkOutDate params) \<ge> 7
        then subtotal r * (10 / 100) else 0)"
    "totalPrice r = subtotal r - totalDiscount r"
  using assms
  by (auto simp add: calculateTotalPrice_def Let_def foldl_add_sum_list
        LONG_STAY_DISCOUNT_DAYS_def LONG_STAY_DISCOUNT_RATE_def
      split: if_splits option.splits sum.splits)

lemma dailyPrices_nth:
  assumes "priceLoop rej e s roomType g checkIn nights 0 [] = Inr days" and "i < length days"
  shows "priceNight rej e s roomType g checkIn (int i) = Inr (days ! i)"
    and "length days = nat nights"
proof -
  from priceLoop_Inr[OF assms(1)] have
    all: "\<forall>j\<in>set [0..nights - 1]. \<exists>day. priceNight rej e s roomType g checkIn j = Inr day" and
    days: "days = map (\<lambda>j. projr (priceNight rej e s roomType g checkIn j)) [0..nights - 1]"
    by simp_all
  from days show len: "length days = nat nights" by simp
  with assms(2) have i: "int i \<le> nights - 1" by linarith
  then have nth: "[0..nights - 1] ! i = int i" by (simp add: nth_upto)
  from i have "int i \<in> set [0..nights - 1]" by simp
  with all obtain day where d: "priceNight rej e s roomType g checkIn (int i) = Inr day" by blast
  from days assms(2) len nth have "days ! i = projr (priceNight rej e s roomType g checkIn (int i))"
    by simp
  with d show "priceNight rej e s roomType g checkIn (int i) = Inr (days ! i)" by simp
qed

lemma occupancy_max:
  "calculateOccupancySurcharge roomType g base =
     base * (10 / 100) * of_int (max 0 (g - rt_maxGuests roomType))"
  by (simp add: calculateOccupancySurcharge_def OCCUPANCY_SURCHARGE_RATE_def Let_def max_def)

lemma example_days:
  "civil (dayNumber dec20) = (2025, 12, 20)" "getDay utc dec20 = 6"
  "civil (dayNumber dec21) = (2025, 12, 21)" "getDay utc dec21 = 0"
  "civil (dayNumber dec22) = (2025, 12, 22)" "getDay utc dec22 = 1"
  "civil (dayNumber mar03) = (2025, 3, 3)" "getDay utc mar03 = 1"
  "civil (dayNumber mar09) = (2025, 3, 9)" "getDay utc mar09 = 0"
  "civil (dayNumber mar10) = (2025, 3, 10)" "getDay utc mar10 = 1"
  "civil (dayNumber (localTime ex_zone_west dec20)) = (2025, 12, 19)"
  "getDay ex_zone_west dec20 = 5"
  "civil (dayNumber (localTime ex_zone_west dec20_west)) = (2025, 12, 20)"
  "getDay ex_zone_west dec20_west = 6"
  "civil (dayNumber (localTime ex_zone_dst nov01_local)) = (2025, 11, 1)"
  "localTime ex_zone_dst nov01_local mod msPerDay = 0"
  "civil (dayNumber (localTime ex_zone_dst nov03_local)) = (2025, 11, 3)"
  "localTime ex_zone_dst nov03_local mod msPerDay = 0"
  by code_simp+

lemma newest_set:
  "set (newest ps) = {p \<in> set ps. \<forall>q\<in>set ps. rp_createdAt q \<le> rp_createdAt p}"
  by (auto simp add: newest_def list_all_iff)

lemma newest_Nil: "newest ps = [] \<longleftrightarrow> ps = []"
proof
  assume empty: "newest ps = []"
  show "ps = []"
  proof (rule ccontr)
    assume ne: "ps \<noteq> []"
    then have "Max (rp_createdAt ` set ps) \<in> rp_createdAt ` set ps"
      by (intro Max_in) simp_all
    then obtain p where p: "p \<in> set ps" "rp_createdAt p = Max (rp_createdAt ` set ps)"
      by auto
    then have "\<forall>q\<in>set ps. rp_createdAt q \<le> rp_createdAt p" by simp
    with p have "p \<in> set (newest ps)" by (simp add: newest_set)
    with empty show False by simp
  qed
next
  assume "ps = []"
  then show "newest ps = []" by (simp add: newest_def)
qed

lemma findFirstNewest_None: "findFirstNewest choice ps = None \<longleftrightarrow> ps = []"
  using newest_Nil[of ps] by (auto simp add: findFirstNewest_def split: list.splits)

lemma findFirstNewest_Some:
  assumes "findFirstNewest choice ps = Some p"
  shows "p \<in> set ps" and "\<forall>q\<in>set ps. rp_createdAt q \<le> rp_createdAt p"
proof -
  from assms obtain x tied where n: "newest ps = x # tied"
    and p: "p = (x # tied) ! (choice (x # tied) mod length (x # tied))"
    by (auto simp add: findFirstNewest_def split: list.splits)
  have "choice (x # tied) mod length (x # tied) < length (x # tied)" by simp
  then have "(x # tied) ! (choice (x # tied) mod length (x # tied)) \<in> set (x # tied)"
    by (rule nth_mem)
  with n p have "p \<in> set (newest ps)" by simp
  then show "p \<in> set ps" and "\<forall>q\<in>set ps. rp_createdAt q \<le> rp_createdAt p"
    by (simp_all add: newest_set)
qed

lemma weekend_example:
  "calculateTotalPrice {} ex_env ex_db (stay dec20 dec22 2) =
     Inr \<lparr> dailyPrices =
             [\<lparr> date = dec20, basePrice = 100, weekendSurcharge = 15, seasonalSurcharge = 20,
                occupancySurcharge = 0, dailyTotal = 135 \<rparr>,
              \<lparr> date = dec21, basePrice = 100, weekendSurcharge = 15, seasonalSurcharge = 20,
                occupancySurcharge = 0, dailyTotal = 135 \<rparr>],
            subtotal = 270, totalDiscount = 0, totalSurcharge = 70, totalPrice = 270 \<rparr>"
  by code_simp

section \<open>Claims about pricing\<close>

text \<open>
  Claim C3, amended. \<^verbatim>\<open>calculateTotalPrice\<close> prices as many nights as \<^verbatim>\<open>Math.ceil\<close> of
  the length of the stay in days (none when that is not positive). Night \<open>i\<close> is dated at
  the local time of check-in moved on by \<open>i\<close> days, in the time zone of the server. Its base
  is the resolved base price of that date; its weekend surcharge is 15% of the base exactly
  when the date, read in local time, is a Saturday or Sunday, and 0 otherwise; its seasonal
  surcharge is 20% of the base exactly when the date, read in local time, lies in the
  windows December 15 to 31, January 1 to 15 or July 1 to August 31, and 0 otherwise; its
  occupancy surcharge is 10% of the base for each guest above the capacity; and its total
  is the sum of the four. In a zone with one offset all year, night \<open>i\<close> is check-in plus
  \<open>i\<close> days, and the priced nights are exactly the day steps from check-in that lie in
  \<open>[checkIn, checkOut)\<close>. A stay of two nights that both resolve to the base 100, both read
  as weekend days in high season, with no guest above the capacity, is priced 135 for each
  night and 270 in subtotal.
\<close>

theorem nightly_price:
  assumes "calculateTotalPrice rej e s params = Inr r"
      and "find (\<lambda>t. rt_id t = roomTypeId params) (roomTypes s) = Some roomType"
  shows "length (dailyPrices r)
           = nat (nightsBetween (checkInDate params) (checkOutDate params)) \<and>
         (\<forall>i<length (dailyPrices r).
            let night = dailyPrices r ! i; d = date night; base = basePrice night
            in d = utcTime (zone e) (localTime (zone e) (checkInDate params) + int i * msPerDay) \<and>
               getDailyBasePrice rej e s roomType d = Inr base \<and>
               weekendSurcharge night =
                 (if getDay (zone e) d = 6 \<or> getDay (zone e) d = 0 then base * (15 / 100) else 0) \<and>
               seasonalSurcharge night =
                 (if spec_highSeason (zone e) d then base * (20 / 100) else 0) \<and>
               occupancySurcharge night =
                 base * (10 / 100) * of_int (max 0 (guests params - rt_maxGuests roomType)) \<and>
               dailyTotal night =
                 base + weekendSurcharge night + seasonalSurcharge night
                   + occupancySurcharge night) \<and>
         (\<forall>c. (\<forall>t. utcOffset (zone e) t = c) \<and> (\<forall>t. localOffset (zone e) t = c) \<longrightarrow>
            (\<forall>i<length (dailyPrices r).
               date (dailyPrices r ! i) = checkInDate params + int i * msPerDay \<and>
               checkInDate params \<le> date (dailyPrices r ! i) \<and>
               date (dailyPrices r ! i) < checkOutDate params) \<and>
            (\<forall>k\<ge>0. checkInDate params + k * msPerDay < checkOutDate params
                     \<longleftrightarrow> nat k < length (dailyPrices r))) \<and>
         (length (dailyPrices r) = 2 \<and> guests params \<le> rt_maxGuests roomType \<and>
          (\<forall>night\<in>set (dailyPrices r).
             basePrice night = 100 \<and>
             (getDay (zone e) (date night) = 6 \<or> getDay (zone e) (date night) = 0) \<and>
             spec_highSeason (zone e) (date night)) \<longrightarrow>
          map dailyTotal (dailyPrices r) = [135, 135] \<and> subtotal r = 270)"
proof -
  let ?ci = "checkInDate params" and ?co = "checkOutDate params"
  let ?z = "zone e"
  from assms(1) obtain roomType' where
    rt: "find (\<lambda>t. rt_id t = roomTypeId params) (roomTypes s) = Some roomType'" and
    loop: "priceLoop rej e s roomType' (guests params) ?ci (nightsBetween ?ci ?co) 0 []
             = Inr (dailyPrices r)" and
    sub: "subtotal r = sum_list (map dailyTotal (dailyPrices r))"
    by (rule calculateTotalPrice_Inr)
  from rt assms(2) have [simp]: "roomType' = roomType" by simp
  from priceLoop_Inr[OF loop] have len: "length (dailyPrices r) = nat (nightsBetween ?ci ?co)"
    by simp
  have night: "priceNight rej e s roomType (guests params) ?ci (int i) = Inr (dailyPrices r ! i)"
    if "i < length (dailyPrices r)" for i
    using dailyPrices_nth(1)[OF loop that] by simp
  have wk: "isWeekend ?z d \<longleftrightarrow> getDay ?z d = 6 \<or> getDay ?z d = 0" for d
    by (auto simp add: isWeekend_def Let_def)
  have formula: "let night = dailyPrices r ! i; d = date night; base = basePrice night
            in d = utcTime ?z (localTime ?z ?ci + int i * msPerDay) \<and>
               getDailyBasePrice rej e s roomType d = Inr base \<and>
               weekendSurcharge night =
                 (if getDay ?z d = 6 \<or> getDay ?z d = 0 then base * (15 / 100) else 0) \<and>
               seasonalSurcharge night =
                 (if spec_highSeason ?z d then base * (20 / 100) else 0) \<and>
               occupancySurcharge night =
                 base * (10 / 100) * of_int (max 0 (guests params - rt_maxGuests roomType)) \<and>
               dailyTotal night =
                 base + weekendSurcharge night + seasonalSurcharge night
                   + occupancySurcharge night"
    if "i < length (dailyPrices r)" for i
    unfolding Let_def
    using priceNight_Inr[OF night[OF that]] wk
    by (simp add: isHighSeason_spec occupancy_max WEEKEND_SURCHARGE_RATE_def
          SEASONAL_SURCHARGE_RATE_def)
  have fixed: "(\<forall>i<length (dailyPrices r).
               date (dailyPrices r ! i) = ?ci + int i * msPerDay \<and>
               ?ci \<le> date (dailyPrices r ! i) \<and> date (dailyPrices r ! i) < ?co) \<and>
            (\<forall>k\<ge>0. ?ci + k * msPerDay < ?co \<longleftrightarrow> nat k < length (dailyPrices r))"
    if c: "(\<forall>t. utcOffset ?z t = c) \<and> (\<forall>t. localOffset ?z t = c)" for c
  proof -
    have at: "date (dailyPrices r ! i) = ?ci + int i * msPerDay"
      if "i < length (dailyPrices r)" for i
      using priceNight_Inr(1)[OF night[OF that]] c
      by (simp add: fixed_offset_shift)
    have "?ci \<le> ?ci + int i * msPerDay" for i
      using msPerDay_pos by simp
    moreover have "?ci + int i * msPerDay < ?co" if "i < length (dailyPrices r)" for i
    proof -
      from that len have "int i < nightsBetween ?ci ?co" by linarith
      then show ?thesis by (simp add: night_before_checkOut)
    qed
    moreover have "\<forall>k\<ge>0. ?ci + k * msPerDay < ?co \<longleftrightarrow> nat k < length (dailyPrices r)"
      using len by (auto simp add: night_before_checkOut)
    ultimately show ?thesis using at by simp
  qed
  have weekend_stay: "map dailyTotal (dailyPrices r) = [135, 135] \<and> subtotal r = 270"
    if a: "length (dailyPrices r) = 2 \<and> guests params \<le> rt_maxGuests roomType \<and>
          (\<forall>night\<in>set (dailyPrices r).
             basePrice night = 100 \<and>
             (getDay ?z (date night) = 6 \<or> getDay ?z (date night) = 0) \<and>
             spec_highSeason ?z (date night))"
  proof -
    have each: "dailyTotal (dailyPrices r ! i) = 135" if "i < 2" for i
    proof -
      from that a have i: "i < length (dailyPrices r)" by simp
      then have "dailyPrices r ! i \<in> set (dailyPrices r)" by (rule nth_mem)
      with a have "basePrice (dailyPrices r ! i) = 100"
        "getDay ?z (date (dailyPrices r ! i)) = 6 \<or> getDay ?z (date (dailyPrices r ! i)) = 0"
        "spec_highSeason ?z (date (dailyPrices r ! i))"
        by blast+
      moreover from a have "max 0 (guests params - rt_maxGuests roomType) = 0" by simp
      ultimately show ?thesis using formula[OF i] by (simp add: Let_def)
    qed
    from a obtain x y where xy: "dailyPrices r = [x, y]"
      by (cases "dailyPrices r"; cases "tl (dailyPrices r)") auto
    with each[of 0] each[of 1] have "dailyTotal x = 135" "dailyTotal y = 135" by simp_all
    with xy sub show ?thesis by simp
  qed
  from len formula fixed weekend_stay show ?thesis by blast
qed

text \<open>
  Claim C3 as stated fails in two ways. On a server five hours west of UTC the stay from
  December 20 to 22, 2025, given as the midnights of UTC, is read as the nights of Friday,
  December 19 and Saturday, December 20: it is priced 120 and 135, 255 in subtotal. On a
  server whose offset changes on November 2 the stay from local midnight of November 1 to
  local midnight of November 3 has 49 hours: three nights are priced, the third one dated
  at check-out.
\<close>

theorem nightly_price_counterexample:
  "civil (dayNumber dec20) = (2025, 12, 20) \<and> dec20 mod msPerDay = 0 \<and>
   civil (dayNumber dec22) = (2025, 12, 22) \<and> dec22 mod msPerDay = 0 \<and>
   weekDay dec20 = 6 \<and> getDay ex_zone_west dec20 = 5 \<and> getDate ex_zone_west dec20 = 19 \<and>
   nightsBetween nov01_local nov03_local = 3 \<and>
   calculateTotalPrice {} ex_env_west ex_db (stay dec20 dec22 2) =
     Inr \<lparr> dailyPrices =
             [\<lparr> date = dec20, basePrice = 100, weekendSurcharge = 0, seasonalSurcharge = 20,
                occupancySurcharge = 0, dailyTotal = 120 \<rparr>,
              \<lparr> date = dec21, basePrice = 100, weekendSurcharge = 15, seasonalSurcharge = 20,
                occupancySurcharge = 0, dailyTotal = 135 \<rparr>],
            subtotal = 255, totalDiscount = 0, totalSurcharge = 55, totalPrice = 255 \<rparr> \<and>
   calculateTotalPrice {} ex_env_dst ex_db (stay nov01_local nov03_local 2) =
     Inr \<lparr> dailyPrices =
             [\<lparr> date = nov01_local, basePrice = 100, weekendSurcharge = 15,
                seasonalSurcharge = 0, occupancySurcharge = 0, dailyTotal = 115 \<rparr>,
              \<lparr> date = nov02_local, basePrice = 100, weekendSurcharge = 15,
                seasonalSurcharge = 0, occupancySurcharge = 0, dailyTotal = 115 \<rparr>,
              \<lparr> date = nov03_local, basePrice = 100, weekendSurcharge = 0,
                seasonalSurcharge = 0, occupancySurcharge = 0, dailyTotal = 100 \<rparr>],
            subtotal = 330, totalDiscount = 0, totalSurcharge = 30, totalPrice = 330 \<rparr>"
  by code_simp

text \<open>
  The example of the specification on a server at UTC, with the dates at the midnights of
  UTC, and on the western server, with the dates at its local midnights: 135 for each
  night, 270 in subtotal.
\<close>

theorem nightly_price_witness:
  "calculateTotalPrice {} ex_env ex_db (stay dec20 dec22 2) =
     Inr \<lparr> dailyPrices =
             [\<lparr> date = dec20, basePrice = 100, weekendSurcharge = 15, seasonalSurcharge = 20,
                occupancySurcharge = 0, dailyTotal = 135 \<rparr>,
              \<lparr> date = dec21, basePrice = 100, weekendSurcharge = 15, seasonalSurcharge = 20,
                occupancySurcharge = 0, dailyTotal = 135 \<rparr>],
            subtotal = 270, totalDiscount = 0, totalSurcharge = 70, totalPrice = 270 \<rparr> \<and>
   getDay utc dec20 = 6 \<and> getDay utc dec21 = 0 \<and>
   spec_highSeason utc dec20 \<and> spec_highSeason utc dec21 \<and>
   getDailyBasePrice {} ex_env ex_db ex_type dec21 = Inr 100 \<and>
   dec21 = dec20 + 1 * msPerDay \<and> dec20 \<le> dec21 \<and> dec21 < dec22 \<and>
   getDay ex_zone_west dec20_west = 6 \<and>
   (case calculateTotalPrice {} ex_env_west ex_db (stay dec20_west dec22_west 2) of
      Inl err \<Rightarrow> False
    | Inr r \<Rightarrow> map dailyTotal (dailyPrices r) = [135, 135] \<and> subtotal r = 270)"
proof -
  let ?r = "\<lparr> dailyPrices =
             [\<lparr> date = dec20, basePrice = 100, weekendSurcharge = 15, seasonalSurcharge = 20,
                occupancySurcharge = 0, dailyTotal = 135 \<rparr>,
              \<lparr> date = dec21, basePrice = 100, weekendSurcharge = 15, seasonalSurcharge = 20,
                occupancySurcharge = 0, dailyTotal = 135::rat \<rparr>],
            subtotal = 270::rat, totalDiscount = 0::rat, totalSurcharge = 70::rat,
            totalPrice = 270::rat \<rparr>"
  have calc: "calculateTotalPrice {} ex_env ex_db (stay dec20 dec22 2) = Inr ?r"
    by (rule weekend_example)
  have rt: "find (\<lambda>t. rt_id t = roomTypeId (stay dec20 dec22 2)) (roomTypes ex_db) = Some ex_type"
    by code_simp
  have z: "zone ex_env = utc" "\<forall>t. utcOffset utc t = 0" "\<forall>t. localOffset utc t = 0"
    by (simp_all add: ex_env_def utc_def)
  have facts: "getDay utc dec20 = 6" "getDay utc dec21 = 0" "spec_highSeason utc dec20"
    "spec_highSeason utc dec21" "getDay ex_zone_west dec20_west = 6"
    by code_simp+
  note inst = nightly_price[OF calc rt]
  from inst z have dates: "date (dailyPrices ?r ! 1) = checkInDate (stay dec20 dec22 2) + int 1 * msPerDay \<and>
      checkInDate (stay dec20 dec22 2) \<le> date (dailyPrices ?r ! 1) \<and>
      date (dailyPrices ?r ! 1) < checkOutDate (stay dec20 dec22 2)"
    by (metis One_nat_def lessI length_Cons list.size(3) PriceResult.select_convs(1))
  have "(1::nat) < length (dailyPrices ?r)" by simp
  with inst[THEN conjunct2, THEN conjunct1]
  have "let night = dailyPrices ?r ! 1; d = date night; base = basePrice night
        in d = utcTime (zone ex_env) (localTime (zone ex_env) (checkInDate (stay dec20 dec22 2))
                 + int 1 * msPerDay) \<and>
           getDailyBasePrice {} ex_env ex_db ex_type d = Inr base \<and>
           weekendSurcharge night =
             (if getDay (zone ex_env) d = 6 \<or> getDay (zone ex_env) d = 0
              then base * (15 / 100) else 0) \<and>
           seasonalSurcharge night =
             (if spec_highSeason (zone ex_env) d then base * (20 / 100) else 0) \<and>
           occupancySurcharge night =
             base * (10 / 100)
               * of_int (max 0 (guests (stay dec20 dec22 2) - rt_maxGuests ex_type)) \<and>
           dailyTotal night =
             base + weekendSurcharge night + seasonalSurcharge night
               + occupancySurcharge night"
    by blast
  then have base: "getDailyBasePrice {} ex_env ex_db ex_type (date (dailyPrices ?r ! 1))
      = Inr (basePrice (dailyPrices ?r ! 1))"
    unfolding Let_def by (rule conjunct2[THEN conjunct1])
  have west: "case calculateTotalPrice {} ex_env_west ex_db (stay dec20_west dec22_west 2) of
      Inl err \<Rightarrow> False
    | Inr r \<Rightarrow> length (dailyPrices r) = 2 \<and>
        (\<forall>night\<in>set (dailyPrices r).
             basePrice night = 100 \<and>
             (getDay (zone ex_env_west) (date night) = 6 \<or>
              getDay (zone ex_env_west) (date night) = 0) \<and>
             spec_highSeason (zone ex_env_west) (date night))"
    by code_simp
  then obtain w where w: "calculateTotalPrice {} ex_env_west ex_db (stay dec20_west dec22_west 2)
      = Inr w"
    and wh: "length (dailyPrices w) = 2"
        "\<forall>night\<in>set (dailyPrices w).
             basePrice night = 100 \<and>
             (getDay (zone ex_env_west) (date night) = 6 \<or>
              getDay (zone ex_env_west) (date night) = 0) \<and>
             spec_highSeason (zone ex_env_west) (date night)"
    by (auto split: sum.splits)
  have rtw: "find (\<lambda>t. rt_id t = roomTypeId (stay dec20_west dec22_west 2)) (roomTypes ex_db)
      = Some ex_type"
    by code_simp
  have cap: "guests (stay dec20_west dec22_west 2) \<le> rt_maxGuests ex_type"
    by (simp add: stay_def ex_type_def)
  from nightly_price[OF w rtw] wh cap
  have "map dailyTotal (dailyPrices w) = [135, 135] \<and> subtotal w = 270"
    by blast
  with w calc facts dates base show ?thesis
    by (simp add: stay_def)
qed

text \<open>
  Claim C4. The subtotal is the sum of the totals of the nights; the discount is 10% of
  the subtotal when the stay has at least 7 nights and 0 otherwise; the total is the
  subtotal minus the discount. The number of nights is the number of priced nights, which
  is \<^verbatim>\<open>Math.ceil\<close> of the length of the stay in days, or 0 when that is negative.
\<close>

theorem stay_totals:
  assumes "calculateTotalPrice rej e s params = Inr r"
  shows "subtotal r = sum_list (map dailyTotal (dailyPrices r)) \<and>
         int (length (dailyPrices r)) = max 0 (nightsBetween (checkInDate params) (checkOutDate params)) \<and>
         totalDiscount r = (if length (dailyPrices r) \<ge> 7 then subtotal r * (10 / 100) else 0) \<and>
         totalPrice r = subtotal r - totalDiscount r"
proof -
  let ?n = "nightsBetween (checkInDate params) (checkOutDate params)"
  from assms obtain roomType where
    loop: "priceLoop rej e s roomType (guests params) (checkInDate params) ?n 0 [] = Inr (dailyPrices r)" and
    sub: "subtotal r = sum_list (map dailyTotal (dailyPrices r))" and
    disc: "totalDiscount r = (if ?n \<ge> 7 then subtotal r * (10 / 100) else 0)" and
    tot: "totalPrice r = subtotal r - totalDiscount r"
    by (rule calculateTotalPrice_Inr)
  from priceLoop_Inr[OF loop] have len: "length (dailyPrices r) = nat ?n" by simp
  then have "int (length (dailyPrices r)) = max 0 ?n" by simp
  moreover from len have "length (dailyPrices r) \<ge> 7 \<longleftrightarrow> ?n \<ge> 7" by linarith
  ultimately show ?thesis using sub disc tot by simp
qed

text \<open>
  A stay of 7 nights from Monday, March 3, 2025 (subtotal 730, discount 73) and one of 6
  nights from the same day (subtotal 615, no discount).
\<close>

theorem stay_totals_witness:
  "(\<exists>r. calculateTotalPrice {} ex_env ex_db (stay mar03 mar10 2) = Inr r \<and>
        length (dailyPrices r) = 7 \<and> subtotal r = 730 \<and> totalDiscount r = 73 \<and> totalPrice r = 657 \<and>
        subtotal r = sum_list (map dailyTotal (dailyPrices r))) \<and>
   (\<exists>r. calculateTotalPrice {} ex_env ex_db (stay mar03 mar09 2) = Inr r \<and>
        length (dailyPrices r) = 6 \<and> subtotal r = 615 \<and> totalDiscount r = 0 \<and> totalPrice r = 615 \<and>
        subtotal r = sum_list (map dailyTotal (dailyPrices r)))"
proof -
  have "case calculateTotalPrice {} ex_env ex_db (stay mar03 mar10 2) of
          Inl e \<Rightarrow> False | Inr r \<Rightarrow> length (dailyPrices r) = 7 \<and> subtotal r = 730"
    by code_simp
  then obtain r7 where r7: "calculateTotalPrice {} ex_env ex_db (stay mar03 mar10 2) = Inr r7"
    and v7: "length (dailyPrices r7) = 7" "subtotal r7 = 730"
    by (auto split: sum.splits)
  have "case calculateTotalPrice {} ex_env ex_db (stay mar03 mar09 2) of
          Inl e \<Rightarrow> False | Inr r \<Rightarrow> length (dailyPrices r) = 6 \<and> subtotal r = 615"
    by code_simp
  then obtain r6 where r6: "calculateTotalPrice {} ex_env ex_db (stay mar03 mar09 2) = Inr r6"
    and v6: "length (dailyPrices r6) = 6" "subtotal r6 = 615"
    by (auto split: sum.splits)
  from stay_totals[OF r7] v7 have "totalDiscount r7 = 73 \<and> totalPrice r7 = 657 \<and>
      subtotal r7 = sum_list (map dailyTotal (dailyPrices r7))"
    by simp
  moreover from stay_totals[OF r6] v6 have "totalDiscount r6 = 0 \<and> totalPrice r6 = 615 \<and>
      subtotal r6 = sum_list (map dailyTotal (dailyPrices r6))"
    by simp
  ultimately show ?thesis using r7 v7 r6 v6 by blast
qed

text \<open>
  Claim C8, amended. Resolving the base price of a category on a date returns the price
  of an override of the category whose interval \<open>[start, end]\<close> contains the date (both
  ends included) and whose creation time is the latest among all such overrides; it
  returns the base price of the category when no override contains the date. When one
  override alone has the latest creation time, the result is its price whatever the
  database does. The query orders by creation time only: between overrides that share the
  latest creation time the database decides.
\<close>

theorem base_price_resolution:
  assumes "RoomPriceFindFirst \<notin> rej"
  shows "(let M = {p \<in> set (roomPrices s). rp_roomTypeId p = rt_id roomType \<and>
                      rp_startDate p \<le> d \<and> d \<le> rp_endDate p}
          in (M = {} \<longrightarrow> getDailyBasePrice rej e s roomType d = Inr (rt_basePrice roomType)) \<and>
             (M \<noteq> {} \<longrightarrow>
                (\<exists>p\<in>M. getDailyBasePrice rej e s roomType d = Inr (rp_price p) \<and>
                        (\<forall>q\<in>M. rp_createdAt q \<le> rp_createdAt p))) \<and>
             (\<forall>p\<in>M. (\<forall>q\<in>M. q \<noteq> p \<longrightarrow> rp_createdAt q < rp_createdAt p) \<longrightarrow>
                     getDailyBasePrice rej e s roomType d = Inr (rp_price p)))"
proof -
  let ?M = "{p \<in> set (roomPrices s). rp_roomTypeId p = rt_id roomType \<and>
                      rp_startDate p \<le> d \<and> d \<le> rp_endDate p}"
  have M: "set (matchingPrices s roomType d) = ?M"
    by (auto simp add: matchingPrices_def)
  have none: "getDailyBasePrice rej e s roomType d = Inr (rt_basePrice roomType)" if "?M = {}"
  proof -
    from that M have "set (matchingPrices s roomType d) = {}" by (simp only:)
    then have "matchingPrices s roomType d = []" by simp
    then have "findFirstNewest (tieChoice e) (matchingPrices s roomType d) = None"
      by (simp add: findFirstNewest_None)
    with assms show ?thesis by (simp add: getDailyBasePrice_def)
  qed
  have some: "\<exists>p\<in>?M. getDailyBasePrice rej e s roomType d = Inr (rp_price p) \<and>
                        (\<forall>q\<in>?M. rp_createdAt q \<le> rp_createdAt p)" if "?M \<noteq> {}"
  proof -
    from that M have "matchingPrices s roomType d \<noteq> []" by auto
    then obtain p where p: "findFirstNewest (tieChoice e) (matchingPrices s roomType d) = Some p"
      using findFirstNewest_None[of "tieChoice e" "matchingPrices s roomType d"] by auto
    from findFirstNewest_Some[OF p] M have "p \<in> ?M" "\<forall>q\<in>?M. rp_createdAt q \<le> rp_createdAt p"
      by blast+
    moreover from p assms have "getDailyBasePrice rej e s roomType d = Inr (rp_price p)"
      by (simp add: getDailyBasePrice_def)
    ultimately show ?thesis by blast
  qed
  have single: "getDailyBasePrice rej e s roomType d = Inr (rp_price p)"
    if "p \<in> ?M" and "\<forall>q\<in>?M. q \<noteq> p \<longrightarrow> rp_createdAt q < rp_createdAt p" for p
  proof -
    from that(1) have "?M \<noteq> {}" by blast
    from some[OF this] obtain p' where p': "p' \<in> ?M"
      "getDailyBasePrice rej e s roomType d = Inr (rp_price p')"
      "\<forall>q\<in>?M. rp_createdAt q \<le> rp_createdAt p'"
      by blast
    have "p' = p"
    proof (rule ccontr)
      assume "p' \<noteq> p"
      with that(2) p'(1) have "rp_createdAt p' < rp_createdAt p" by blast
      moreover from p'(3) that(1) have "rp_createdAt p \<le> rp_createdAt p'" by blast
      ultimately show False by simp
    qed
    with p'(2) show ?thesis by simp
  qed
  from none some single show ?thesis unfolding Let_def by blast
qed

text \<open>
  Claim C8 as stated fails on ties: with two overrides of one creation time that both
  contain December 22, the price is 150 when the database takes the first of them and 180
  when it takes the second. The table, the category and the date are the same.
\<close>

theorem base_price_resolution_counterexample:
  "rp_createdAt ex_override1 = 1000 \<and>
   map rp_createdAt (roomPrices ex_db_tied) = [1000, 1000] \<and>
   map rp_price (matchingPrices ex_db_tied ex_type dec22) = [150, 180] \<and>
   getDailyBasePrice {} ex_env ex_db_tied ex_type dec22 = Inr 150 \<and>
   getDailyBasePrice {} ex_env_second ex_db_tied ex_type dec22 = Inr 180"
  by code_simp

text \<open>
  Two overrides that both contain December 22 (one ends, one starts on that day): the one
  created later wins, whichever tied row the database would take. December 19 is in no
  override.
\<close>

theorem base_price_resolution_witness:
  "RoomPriceFindFirst \<notin> ({} :: store_call set) \<and>
   getDailyBasePrice {} ex_env ex_db_overrides ex_type dec19 = Inr (rt_basePrice ex_type) \<and>
   getDailyBasePrice {} ex_env ex_db_overrides ex_type dec20 = Inr (rp_price ex_override1) \<and>
   getDailyBasePrice {} ex_env ex_db_overrides ex_type dec22 = Inr (rp_price ex_override2) \<and>
   getDailyBasePrice {} ex_env_second ex_db_overrides ex_type dec22 = Inr (rp_price ex_override2) \<and>
   rp_startDate ex_override1 \<le> dec22 \<and> dec22 \<le> rp_endDate ex_override1 \<and>
   rp_startDate ex_override2 \<le> dec22 \<and> dec22 \<le> rp_endDate ex_override2 \<and>
   rp_createdAt ex_override1 < rp_createdAt ex_override2"
proof -
  have h: "RoomPriceFindFirst \<notin> ({} :: store_call set)" by simp
  have none: "{p \<in> set (roomPrices ex_db_overrides). rp_roomTypeId p = rt_id ex_type \<and>
                 rp_startDate p \<le> dec19 \<and> dec19 \<le> rp_endDate p} = {}"
    by (auto simp add: ex_db_overrides_def ex_db_def ex_override1_def ex_override2_def
          ex_type_def dec19_def dec20_def dec22_def)
  have both: "{p \<in> set (roomPrices ex_db_overrides). rp_roomTypeId p = rt_id ex_type \<and>
                 rp_startDate p \<le> dec22 \<and> dec22 \<le> rp_endDate p} = {ex_override1, ex_override2}"
    by (auto simp add: ex_db_overrides_def ex_db_def ex_override1_def ex_override2_def
          ex_type_def dec20_def dec22_def)
  have first: "getDailyBasePrice {} ex_env ex_db_overrides ex_type dec20 = Inr (rp_price ex_override1)"
    by code_simp
  have created: "rp_createdAt ex_override1 = 1000" "rp_createdAt ex_override2 = 2000"
    by (simp_all add: ex_override1_def ex_override2_def)
  have bounds: "rp_startDate ex_override1 \<le> dec22" "dec22 \<le> rp_endDate ex_override1"
    "rp_startDate ex_override2 \<le> dec22" "dec22 \<le> rp_endDate ex_override2"
    by (simp_all add: ex_override1_def ex_override2_def dec20_def dec22_def)
  from base_price_resolution[OF h, of ex_db_overrides ex_type dec19 ex_env] none
  have a: "getDailyBasePrice {} ex_env ex_db_overrides ex_type dec19 = Inr (rt_basePrice ex_type)"
    by simp
  have b: "getDailyBasePrice {} e' ex_db_overrides ex_type dec22 = Inr (rp_price ex_override2)"
    for e'
    using base_price_resolution[OF h, of ex_db_overrides ex_type dec22 e'] both created
    by (auto simp add: Let_def)
  from h a b first bounds created show ?thesis by simp
qed

section \<open>Lemmas about the booking controller\<close>

lemma createBooking_check_Inr:
  assumes "createBooking_check rej e s req = Inr p"
  obtains u roomId checkIn checkOut g room where
    "req_user req = Some u" "user_id u \<noteq> 0"
    "req_roomId req = Some roomId" "req_checkInDate req = Some checkIn"
    "req_checkOutDate req = Some checkOut" "req_guests req = Some g"
    "find (\<lambda>r. room_id r = roomId) (rooms s) = Some room"
    "room_status room = ''available''"
    "existingBooking s roomId checkIn checkOut = None"
    "calculateTotalPrice rej e s \<lparr> roomTypeId = room_roomTypeId room, checkInDate = checkIn,
        checkOutDate = checkOut, guests = g \<rparr> = Inr (prep_price p)"
    "p = \<lparr> prep_user = u, prep_room = room,
           prep_roomType = find (\<lambda>t. rt_id t = room_roomTypeId room) (roomTypes s),
           prep_checkIn = checkIn, prep_checkOut = checkOut,
           prep_guestName = req_guestName req, prep_guestEmail = req_guestEmail req,
           prep_specialRequests = req_specialRequests req, prep_price = prep_price p \<rparr>"
  using assms unfolding createBooking_check_def
  by (auto split: option.splits if_splits sum.splits prod.splits)

lemma find_room_id:
  "find (\<lambda>r. room_id r = roomId) rs = Some room \<Longrightarrow> room \<in> set rs \<and> room_id room = roomId"
  by (auto simp add: find_Some_iff)

lemma updateRoomStatus_found:
  assumes "find (\<lambda>r. room_id r = roomId) (rooms s) = Some room"
  shows "updateRoomStatus s roomId st =
           Inr (s\<lparr>rooms := map (\<lambda>r. if room_id r = roomId then r\<lparr>room_status := st\<rparr> else r)
                              (rooms s)\<rparr>)"
  using find_room_id[OF assms] by (auto simp add: updateRoomStatus_def list_ex_iff)


lemma createBooking_write_cases:
  assumes "find (\<lambda>r. room_id r = room_id (prep_room p)) (rooms s) = Some room"
      and "createBooking_write rej s p = (reply, s')"
  shows "(\<exists>m. reply = Fail 500 m \<and> s' = s) \<or>
         (\<exists>m perNight. reply = Fail 500 m \<and> RoomUpdate \<in> rej \<and> BookingCreate \<notin> rej \<and>
            pricePerNightOf (prep_price p) (prep_roomType p) = Inr perNight \<and>
            s' = bookingCreate s (bookingRow s p) (bookingItemRow s p perNight)) \<or>
         (\<exists>perNight. RoomUpdate \<notin> rej \<and> BookingCreate \<notin> rej \<and>
            pricePerNightOf (prep_price p) (prep_roomType p) = Inr perNight \<and>
            reply = Success 201
              \<lparr> created_booking = bookingRow s p,
                created_item = bookingItemRow s p perNight,
                created_price = prep_price p \<rparr> \<and>
            s' = (bookingCreate s (bookingRow s p) (bookingItemRow s p perNight))
                   \<lparr> rooms := map (\<lambda>r. if room_id r = room_id (prep_room p)
                                        then r\<lparr>room_status := ''booked''\<rparr> else r) (rooms s) \<rparr>)"
proof (cases "pricePerNightOf (prep_price p) (prep_roomType p)")
  case (Inl e)
  with assms(2) show ?thesis by (auto simp add: createBooking_write_def)
next
  case (Inr perNight)
  let ?s1 = "bookingCreate s (bookingRow s p) (bookingItemRow s p perNight)"
  have rooms1: "rooms ?s1 = rooms s" by (simp add: bookingCreate_def)
  with assms(1) have "find (\<lambda>r. room_id r = room_id (prep_room p)) (rooms ?s1) = Some room"
    by simp
  from updateRoomStatus_found[OF this, of "''booked''"] rooms1
  have upd: "updateRoomStatus ?s1 (room_id (prep_room p)) ''booked'' =
          Inr (?s1\<lparr>rooms := map (\<lambda>r. if room_id r = room_id (prep_room p)
                                        then r\<lparr>room_status := ''booked''\<rparr> else r) (rooms s)\<rparr>)"
    by simp
  show ?thesis
  proof (cases "BookingCreate \<in> rej")
    case True
    with Inr assms(2) show ?thesis by (auto simp add: createBooking_write_def)
  next
    case create: False
    show ?thesis
    proof (cases "RoomUpdate \<in> rej")
      case True
      with Inr create assms(2) show ?thesis
        by (auto simp add: createBooking_write_def Let_def)
    next
      case False
      with Inr create assms(2) upd show ?thesis
        by (auto simp add: createBooking_write_def Let_def)
    qed
  qed
qed

lemma row_fields:
  "bi_bookingId (bookingItemRow s p perNight) = bk_id (bookingRow s p)"
  "bi_roomId (bookingItemRow s p perNight) = room_id (prep_room p)"
  "bi_pricePerNight (bookingItemRow s p perNight) = perNight"
  "bi_nights (bookingItemRow s p perNight) = int (length (dailyPrices (prep_price p)))"
  "bk_status (bookingRow s p) = ''confirmed''"
  "bk_totalAmount (bookingRow s p) = totalPrice (prep_price p)"
  "bk_checkIn (bookingRow s p) = prep_checkIn p"
  "bk_checkOut (bookingRow s p) = prep_checkOut p"
  "bk_id (bookingRow s p) = nextId (map bk_id (bookings s))"
  by (simp_all add: bookingRow_def bookingItemRow_def)

lemma createBooking_check_room:
  assumes "createBooking_check rej e s req = Inr p"
  shows "find (\<lambda>r. room_id r = room_id (prep_room p)) (rooms s) = Some (prep_room p)"
    and "req_roomId req = Some (room_id (prep_room p))"
    and "room_status (prep_room p) = ''available''"
proof -
  from assms obtain roomId room where
    f: "find (\<lambda>r. room_id r = roomId) (rooms s) = Some room" and
    r: "req_roomId req = Some roomId" and st: "room_status room = ''available''" and
    p: "prep_room p = room"
    by (elim createBooking_check_Inr) (metis Prepared.select_convs(2))
  from find_room_id[OF f] have "room_id room = roomId" by simp
  with f r st p show "find (\<lambda>r. room_id r = room_id (prep_room p)) (rooms s) = Some (prep_room p)"
    "req_roomId req = Some (room_id (prep_room p))" "room_status (prep_room p) = ''available''"
    by simp_all
qed

lemma nightsBetween_nonpos: "nightsBetween ci co \<le> 0 \<longleftrightarrow> co \<le> ci"
  using night_before_checkOut[of ci 0 co] by auto

lemma calculateTotalPrice_empty:
  assumes "checkOutDate params \<le> checkInDate params"
      and "RoomTypeFindUnique \<notin> rej"
      and "find (\<lambda>t. rt_id t = roomTypeId params) (roomTypes s) = Some roomType"
  shows "calculateTotalPrice rej e s params =
           Inr \<lparr> dailyPrices = [], subtotal = 0, totalDiscount = 0, totalSurcharge = 0,
                 totalPrice = 0 \<rparr>"
proof -
  from assms(1) have n: "nightsBetween (checkInDate params) (checkOutDate params) \<le> 0"
    by (simp add: nightsBetween_nonpos)
  then have "priceLoop rej e s roomType (guests params) (checkInDate params)
               (nightsBetween (checkInDate params) (checkOutDate params)) 0 [] = Inr []"
    by (subst priceLoop.simps) simp
  with assms(2,3) n show ?thesis
    by (simp add: calculateTotalPrice_def Let_def LONG_STAY_DISCOUNT_DAYS_def)
qed

lemma createBooking_Success:
  assumes "createBooking rej e s req = (Success code c, s')"
  obtains p perNight roomType where
    "createBooking_check rej e s req = Inr p"
    "find (\<lambda>t. rt_id t = room_roomTypeId (prep_room p)) (roomTypes s) = Some roomType"
    "pricePerNightOf (prep_price p) (Some roomType) = Inr perNight"
    "c = \<lparr> created_booking = bookingRow s p, created_item = bookingItemRow s p perNight,
           created_price = prep_price p \<rparr>"
proof -
  from assms obtain p where chk: "createBooking_check rej e s req = Inr p"
    and w: "createBooking_write rej s p = (Success code c, s')"
    by (cases "createBooking_check rej e s req")
       (auto simp add: createBooking_def createBooking_check_def
             split: option.splits if_splits sum.splits prod.splits)
  note room = createBooking_check_room[OF chk]
  from createBooking_write_cases[OF room(1) w] obtain perNight where
    pn: "pricePerNightOf (prep_price p) (prep_roomType p) = Inr perNight" and
    c: "c = \<lparr> created_booking = bookingRow s p, created_item = bookingItemRow s p perNight,
           created_price = prep_price p \<rparr>"
    by auto
  from chk obtain room g where
    calc: "calculateTotalPrice rej e s \<lparr> roomTypeId = room_roomTypeId room,
             checkInDate = prep_checkIn p, checkOutDate = prep_checkOut p, guests = g \<rparr>
           = Inr (prep_price p)" and
    pr: "prep_room p = room" and
    pt: "prep_roomType p = find (\<lambda>t. rt_id t = room_roomTypeId room) (roomTypes s)"
    by (elim createBooking_check_Inr)
       (metis Prepared.select_convs(2) Prepared.select_convs(3) Prepared.select_convs(4)
          Prepared.select_convs(5))
  from calc obtain roomType where
    "find (\<lambda>t. rt_id t = room_roomTypeId room) (roomTypes s) = Some roomType"
    by (elim calculateTotalPrice_Inr) simp
  with pn c pr pt chk show ?thesis by (intro that[of p roomType perNight]) simp_all
qed

lemma pricePerNightOf_Some:
  "pricePerNightOf priceResult (Some roomType) =
     Inr (case dailyPrices priceResult of
            [] \<Rightarrow> rt_basePrice roomType
          | night # _ \<Rightarrow> if dailyTotal night = 0 then rt_basePrice roomType else dailyTotal night)"
  by (simp add: pricePerNightOf_def split: list.splits)

lemma first_night_total:
  assumes "calculateTotalPrice rej e s params = Inr r"
  shows "(case dailyPrices r of
            [] \<Rightarrow> True
          | night # _ \<Rightarrow> dailyTotal night = basePrice night + weekendSurcharge night
                           + seasonalSurcharge night + occupancySurcharge night)"
proof (cases "dailyPrices r")
  case Nil
  then show ?thesis by simp
next
  case (Cons night rest)
  from assms obtain roomType where
    loop: "priceLoop rej e s roomType (guests params) (checkInDate params)
       (nightsBetween (checkInDate params) (checkOutDate params)) 0 [] = Inr (dailyPrices r)"
    by (rule calculateTotalPrice_Inr)
  from Cons have "0 < length (dailyPrices r)" by simp
  from dailyPrices_nth(1)[OF loop this] Cons
  have "priceNight rej e s roomType (guests params) (checkInDate params) 0 = Inr night" by simp
  from priceNight_Inr(6)[OF this] Cons show ?thesis by simp
qed

lemma updateRoomStatus_Inr:
  "roomId \<in> room_id ` set (rooms s) \<Longrightarrow>
   updateRoomStatus s roomId st =
     Inr (s\<lparr>rooms := map (\<lambda>r. if room_id r = roomId then r\<lparr>room_status := st\<rparr> else r)
                        (rooms s)\<rparr>)"
  by (auto simp add: updateRoomStatus_def list_ex_iff)

lemma room_ids_status:
  "room_id ` set (map (\<lambda>r. if P r then r\<lparr>room_status := st\<rparr> else r) rs) = room_id ` set rs"
  by (induction rs) auto

lemma releaseRooms_all:
  assumes "bi_roomId ` set items \<subseteq> room_id ` set (rooms s)"
  shows "releaseRooms s items =
           (True, s\<lparr>rooms := map (\<lambda>r. if room_id r \<in> bi_roomId ` set items
                                       then r\<lparr>room_status := ''available''\<rparr> else r)
                                (rooms s)\<rparr>)"
  using assms
proof (induction items arbitrary: s)
  case Nil
  then show ?case by simp
next
  case (Cons item items)
  let ?s1 = "s\<lparr>rooms := map (\<lambda>r. if room_id r = bi_roomId item
                                then r\<lparr>room_status := ''available''\<rparr> else r) (rooms s)\<rparr>"
  from Cons.prems have "bi_roomId item \<in> room_id ` set (rooms s)" by simp
  then have upd: "updateRoomStatus s (bi_roomId item) ''available'' = Inr ?s1"
    by (rule updateRoomStatus_Inr)
  have "rooms ?s1 = map (\<lambda>r. if room_id r = bi_roomId item
                                then r\<lparr>room_status := ''available''\<rparr> else r) (rooms s)"
    by simp
  then have ids: "room_id ` set (rooms ?s1) = room_id ` set (rooms s)"
    by (simp only: room_ids_status)
  from Cons.prems have "bi_roomId ` set items \<subseteq> room_id ` set (rooms s)" by simp
  with ids have "bi_roomId ` set items \<subseteq> room_id ` set (rooms ?s1)" by (simp only:)
  from Cons.IH[OF this]
  have "releaseRooms ?s1 items =
          (True, s\<lparr>rooms := map (\<lambda>r. if room_id r \<in> bi_roomId ` set items
                                       then r\<lparr>room_status := ''available''\<rparr> else r)
                    (map (\<lambda>r. if room_id r = bi_roomId item
                                then r\<lparr>room_status := ''available''\<rparr> else r) (rooms s))\<rparr>)"
    by simp
  moreover have "map (\<lambda>r. if room_id r \<in> bi_roomId ` set items
                                       then r\<lparr>room_status := ''available''\<rparr> else r)
                    (map (\<lambda>r. if room_id r = bi_roomId item
                                then r\<lparr>room_status := ''available''\<rparr> else r) (rooms s))
     = map (\<lambda>r. if room_id r \<in> bi_roomId ` set (item # items)
                                       then r\<lparr>room_status := ''available''\<rparr> else r) (rooms s)"
    by (rule nth_equalityI) auto
  ultimately show ?case using upd by simp
qed

lemma find_booking_id:
  "find (\<lambda>b. bk_id b = bookingId) bs = Some booking \<Longrightarrow> bk_id booking = bookingId"
  by (auto simp add: find_Some_iff)

lemma mayCancel_iff:
  "(map_option user_id user \<noteq> Some owner \<and> map_option user_role user \<noteq> Some ''ADMIN'' \<and>
    map_option user_role user \<noteq> Some ''MANAGER'') \<longleftrightarrow>
   \<not> (\<exists>u. user = Some u \<and> (user_id u = owner \<or> user_role u = ''ADMIN'' \<or>
                              user_role u = ''MANAGER''))"
  by (cases user) simp_all

lemma cancelBooking_absent:
  "BookingFindUnique \<notin> rej \<Longrightarrow> find (\<lambda>b. bk_id b = bookingId) (bookings s) = None \<Longrightarrow>
   cancelBooking rej s user bookingId = (Fail 404 ''Booking not found'', s)"
  by (simp add: cancelBooking_def)

lemma cancelBooking_found:
  assumes "BookingFindUnique \<notin> rej"
      and "find (\<lambda>b. bk_id b = bookingId) (bookings s) = Some booking"
  shows "cancelBooking rej s user bookingId =
     (if \<not> (\<exists>u. user = Some u \<and> (user_id u = bk_userId booking \<or> user_role u = ''ADMIN'' \<or>
                              user_role u = ''MANAGER''))
      then (Fail 403 ''Not authorized to cancel this booking'', s)
      else if BookingUpdate \<in> rej then (Fail 500 ''Error cancelling booking'', s)
      else if RoomUpdate \<in> rej
        then (Fail 500 ''Error cancelling booking'', setCancelled s bookingId)
      else (case releaseRooms (setCancelled s bookingId)
                   (filter (\<lambda>item. bi_bookingId item = bookingId) (bookingItems s)) of
              (False, s2) \<Rightarrow> (Fail 500 ''Error cancelling booking'', s2)
            | (True, s2) \<Rightarrow> (Success 200 (booking\<lparr>bk_status := ''cancelled''\<rparr>), s2)))"
proof -
  from assms(2) have id: "bk_id booking = bookingId" by (rule find_booking_id)
  show ?thesis
    unfolding cancelBooking_def Let_def mayCancel_iff
    using assms id by (simp only: if_False option.case id)
qed

lemma find_status_update:
  "find (\<lambda>r. room_id r = roomId)
        (map (\<lambda>r. if room_id r = roomId then r\<lparr>room_status := st\<rparr> else r) rs)
     = map_option (\<lambda>r. r\<lparr>room_status := st\<rparr>) (find (\<lambda>r. room_id r = roomId) rs)"
  by (induction rs) auto

lemma createBooking_Success_rooms:
  assumes "createBooking rej e s req = (Success code c, s')"
  obtains room where
    "req_roomId req = Some (room_id room)"
    "find (\<lambda>r. room_id r = room_id room) (rooms s') = Some (room\<lparr>room_status := ''booked''\<rparr>)"
proof -
  from assms obtain p where chk: "createBooking_check rej e s req = Inr p"
    and w: "createBooking_write rej s p = (Success code c, s')"
    by (cases "createBooking_check rej e s req")
       (auto simp add: createBooking_def createBooking_check_def
             split: option.splits if_splits sum.splits prod.splits)
  note room = createBooking_check_room[OF chk]
  from createBooking_write_cases[OF room(1) w]
  have "rooms s' = map (\<lambda>r. if room_id r = room_id (prep_room p)
                             then r\<lparr>room_status := ''booked''\<rparr> else r) (rooms s)"
    by (auto simp add: bookingCreate_def)
  with room(1) have "find (\<lambda>r. room_id r = room_id (prep_room p)) (rooms s')
                       = Some ((prep_room p)\<lparr>room_status := ''booked''\<rparr>)"
    by (simp add: find_status_update)
  with room(2) show ?thesis using that by blast
qed

lemma createBooking_booked_room:
  assumes "find (\<lambda>r. room_id r = roomId) (rooms s) = Some room"
      and "room_status room \<noteq> ''available''"
      and "req_roomId q = Some roomId"
  shows "\<exists>code msg. createBooking rej e s q = (Fail code msg, s)"
    and "RoomFindUnique \<notin> rej \<Longrightarrow> req_user q = Some u \<Longrightarrow> user_id u \<noteq> 0 \<Longrightarrow>
         roomId \<noteq> 0 \<Longrightarrow> req_checkInDate q = Some ci \<Longrightarrow> req_checkOutDate q = Some co \<Longrightarrow>
         req_guests q = Some g \<Longrightarrow> g \<noteq> 0 \<Longrightarrow> req_guestName q \<noteq> [] \<Longrightarrow>
         req_guestEmail q \<noteq> [] \<Longrightarrow>
         createBooking rej e s q = (Fail 400 ''Room is not available for booking'', s)"
  using assms
  by (auto simp add: createBooking_def createBooking_check_def split: option.splits)


lemma reserveAll_Cons:
  "reserveAll e s ((rej, req) # rest) =
     (fst (createBooking rej e s req) # fst (reserveAll e (snd (createBooking rej e s req)) rest),
      snd (reserveAll e (snd (createBooking rej e s req)) rest))"
  by (simp split: prod.splits)

lemma reserveAll_booked_room:
  assumes "find (\<lambda>r. room_id r = roomId) (rooms s) = Some room"
      and "room_status room \<noteq> ''available''"
      and "\<forall>q\<in>set later. req_roomId (snd q) = Some roomId"
  shows "snd (reserveAll e s later) = s \<and>
         length (fst (reserveAll e s later)) = length later \<and>
         (\<forall>r\<in>set (fst (reserveAll e s later)). \<not> succeeded r)"
  using assms(3)
proof (induction later)
  case Nil
  then show ?case by simp
next
  case (Cons q later)
  obtain rej req where q: "q = (rej, req)" by (cases q)
  with Cons.prems have "req_roomId req = Some roomId" by simp
  from createBooking_booked_room(1)[OF assms(1,2) this, of rej] obtain code msg where
    "createBooking rej e s req = (Fail code msg, s)" by blast
  moreover from Cons have "snd (reserveAll e s later) = s \<and>
         length (fst (reserveAll e s later)) = length later \<and>
         (\<forall>r\<in>set (fst (reserveAll e s later)). \<not> succeeded r)" by simp
  ultimately show ?case using q by (simp add: reserveAll_Cons del: reserveAll.simps)
qed

lemma reserveAll_replicate_fail:
  assumes "createBooking rej e s req = (Fail code msg, s)"
  shows "fst (reserveAll e s (replicate n (rej, req))) = replicate n (Fail code msg) \<and>
         snd (reserveAll e s (replicate n (rej, req))) = s"
  using assms by (induction n) (simp_all add: reserveAll_Cons del: reserveAll.simps(2))

lemma createBooking_check_wellformed:
  assumes "createBooking_check rej e s req = Inr p"
  shows "\<exists>u roomId checkIn checkOut g.
           req_user req = Some u \<and> user_id u \<noteq> 0 \<and> req_roomId req = Some roomId \<and>
           roomId \<noteq> 0 \<and> req_checkInDate req = Some checkIn \<and>
           req_checkOutDate req = Some checkOut \<and> req_guests req = Some g \<and> g \<noteq> 0 \<and>
           req_guestName req \<noteq> [] \<and> req_guestEmail req \<noteq> []"
  using assms unfolding createBooking_check_def
  by (auto split: option.splits if_splits sum.splits prod.splits)

text \<open>
  What the two availability queries of the room service decide. Both use the test
  \<open>existing.checkIn \<le> requested.checkOut \<and> existing.checkOut \<ge> requested.checkIn\<close>;
  only \<^verbatim>\<open>getAvailableRooms\<close> looks at the status of the booking.
\<close>

lemma isRoomAvailable_iff:
  assumes "BookingItemCount \<notin> rej"
  shows "isRoomAvailable rej s roomId checkIn checkOut =
           Inr (\<not> (\<exists>item\<in>set (bookingItems s). bi_roomId item = roomId \<and>
                    (\<exists>b. itemBooking s item = Some b \<and> bk_checkIn b \<le> checkOut \<and>
                         bk_checkOut b \<ge> checkIn)))"
  using assms
  by (auto simp add: isRoomAvailable_def Let_def filter_empty_conv split: option.splits)

lemma getAvailableRooms_iff:
  assumes "getAvailableRooms rej s hotelId checkIn checkOut g = Inr found"
  shows "room \<in> set found \<longleftrightarrow>
           room \<in> set (rooms s) \<and> room_hotelId room = hotelId \<and>
           (\<exists>t. find (\<lambda>t. rt_id t = room_roomTypeId room) (roomTypes s) = Some t \<and>
                rt_maxGuests t \<ge> g) \<and>
           \<not> (\<exists>item\<in>set (bookingItems s). bi_roomId item = room_id room \<and>
                (\<exists>b. itemBooking s item = Some b \<and> bk_checkIn b \<le> checkOut \<and>
                     bk_checkOut b \<ge> checkIn \<and> bk_status b \<noteq> ''cancelled''))"
  using assms
  by (auto simp add: getAvailableRooms_def list_ex_iff split: if_splits option.splits)

lemma foldl_max_ge: "(a::int) \<le> foldl max a ids"
proof (induction ids arbitrary: a)
  case Nil
  show ?case by simp
next
  case (Cons x xs)
  from Cons[of "max a x"] show ?case by simp
qed

lemma foldl_max_mem: "i \<in> set ids \<Longrightarrow> (i::int) \<le> foldl max a ids"
proof (induction ids arbitrary: a)
  case Nil
  then show ?case by simp
next
  case (Cons x xs)
  show ?case
  proof (cases "i = x")
    case True
    with foldl_max_ge[of "max a x" xs] show ?thesis by simp
  next
    case False
    with Cons.prems have "i \<in> set xs" by simp
    from Cons.IH[OF this, of "max a x"] show ?thesis by simp
  qed
qed

lemma nextId_fresh: "i \<in> set ids \<Longrightarrow> i < nextId ids"
  using foldl_max_mem[of i ids 0] by (simp add: nextId_def)

lemma find_append_last:
  "\<forall>y\<in>set xs. \<not> P y \<Longrightarrow> P x \<Longrightarrow> find P (xs @ [x]) = Some x"
  by (induction xs) simp_all

lemma releaseRooms_tables:
  "bookings (snd (releaseRooms s items)) = bookings s \<and>
   bookingItems (snd (releaseRooms s items)) = bookingItems s"
proof (induction items arbitrary: s)
  case Nil
  show ?case by simp
next
  case (Cons item items)
  show ?case
  proof (cases "updateRoomStatus s (bi_roomId item) ''available''")
    case (Inl e)
    with Cons[of s] show ?thesis by simp
  next
    case (Inr s1)
    then have "bookings s1 = bookings s" "bookingItems s1 = bookingItems s"
      by (auto simp add: updateRoomStatus_def split: if_splits)
    with Cons[of s1] Inr show ?thesis by simp
  qed
qed

lemma cancelBooking_Success_tables:
  assumes "cancelBooking rej s user bookingId = (Success code b, s')"
  shows "bookings s' = map (\<lambda>b. if bk_id b = bookingId then b\<lparr>bk_status := ''cancelled''\<rparr> else b)
                          (bookings s)"
    and "bookingItems s' = bookingItems s"
proof -
  from assms have nf: "BookingFindUnique \<notin> rej"
    by (auto simp add: cancelBooking_def split: if_splits)
  with assms obtain booking where f: "find (\<lambda>b. bk_id b = bookingId) (bookings s) = Some booking"
    by (cases "find (\<lambda>b. bk_id b = bookingId) (bookings s)") (auto simp add: cancelBooking_def)
  let ?items = "filter (\<lambda>item. bi_bookingId item = bookingId) (bookingItems s)"
  from assms have "s' = snd (releaseRooms (setCancelled s bookingId) ?items)"
    unfolding cancelBooking_found[OF nf f]
    by (auto split: if_splits prod.splits bool.splits)
  with releaseRooms_tables[of "setCancelled s bookingId" ?items]
  show "bookings s' = map (\<lambda>b. if bk_id b = bookingId then b\<lparr>bk_status := ''cancelled''\<rparr> else b)
                          (bookings s)"
    and "bookingItems s' = bookingItems s"
    by (simp_all add: setCancelled_def)
qed


lemma createBooking_Success_state:
  assumes "createBooking rej e s req = (Success code c, s')"
  obtains p perNight where
    "createBooking_check rej e s req = Inr p"
    "c = \<lparr> created_booking = bookingRow s p, created_item = bookingItemRow s p perNight,
           created_price = prep_price p \<rparr>"
    "bookings s' = bookings s @ [bookingRow s p]"
    "bookingItems s' = bookingItems s @ [bookingItemRow s p perNight]"
proof -
  from assms obtain p where chk: "createBooking_check rej e s req = Inr p"
    and w: "createBooking_write rej s p = (Success code c, s')"
    by (cases "createBooking_check rej e s req")
       (auto simp add: createBooking_def createBooking_check_def
             split: option.splits if_splits sum.splits prod.splits)
  note room = createBooking_check_room[OF chk]
  from createBooking_write_cases[OF room(1) w] obtain perNight where
    "c = \<lparr> created_booking = bookingRow s p, created_item = bookingItemRow s p perNight,
           created_price = prep_price p \<rparr>"
    "bookings s' = bookings s @ [bookingRow s p]"
    "bookingItems s' = bookingItems s @ [bookingItemRow s p perNight]"
    by (auto simp add: bookingCreate_def)
  with chk show ?thesis by (rule that)
qed

lemma createBooking_existing:
  assumes "existingBooking s roomId checkIn checkOut = Some b"
      and "req_roomId req = Some roomId" "req_checkInDate req = Some checkIn"
      and "req_checkOutDate req = Some checkOut"
  shows "\<exists>code msg. createBooking rej e s req = (Fail code msg, s)"
  using assms
  by (auto simp add: createBooking_def createBooking_check_def split: option.splits)

text \<open>
  A reservation that was cancelled still blocks its room for its own dates: whenever a
  reserve succeeded and the cancel of its reservation succeeded, a repeat of the reserve
  request with check-in not after check-out fails.
\<close>

lemma rereserve_after_cancel:
  assumes r1: "createBooking rej e s req = (Success code c, s1)"
      and r2: "cancelBooking rej2 s1 user (bk_id (created_booking c)) = (Success code2 b, s2)"
      and dates: "req_checkInDate req = Some checkIn" "req_checkOutDate req = Some checkOut"
        "checkIn \<le> checkOut"
  shows "\<exists>code3 msg. createBooking rej3 e s2 req = (Fail code3 msg, s2)"
proof -
  from r1 obtain p perNight where
    chk: "createBooking_check rej e s req = Inr p" and
    c: "c = \<lparr> created_booking = bookingRow s p, created_item = bookingItemRow s p perNight,
           created_price = prep_price p \<rparr>" and
    bs1: "bookings s1 = bookings s @ [bookingRow s p]" and
    is1: "bookingItems s1 = bookingItems s @ [bookingItemRow s p perNight]"
    by (rule createBooking_Success_state)
  let ?B = "bookingRow s p" and ?I = "bookingItemRow s p perNight"
  let ?n = "nextId (map bk_id (bookings s))"
  let ?C = "?B\<lparr>bk_status := ''cancelled''\<rparr>"
  note room = createBooking_check_room[OF chk]
  from chk dates have pd: "prep_checkIn p = checkIn" "prep_checkOut p = checkOut"
    by (elim createBooking_check_Inr,
        metis Prepared.select_convs(4) Prepared.select_convs(5) option.inject)+
  from c have id: "bk_id (created_booking c) = ?n" by (simp add: row_fields)
  from cancelBooking_Success_tables[OF r2] id bs1 is1 have
    bs2: "bookings s2 = map (\<lambda>b. if bk_id b = ?n then b\<lparr>bk_status := ''cancelled''\<rparr> else b)
                           (bookings s) @ [?C]" and
    is2: "bookingItems s2 = bookingItems s @ [?I]"
    by (simp_all add: row_fields)
  have fresh: "\<forall>y\<in>set (bookings s). bk_id y \<noteq> ?n"
    using nextId_fresh[of _ "map bk_id (bookings s)"] by force
  then have old: "map (\<lambda>b. if bk_id b = ?n then b\<lparr>bk_status := ''cancelled''\<rparr> else b) (bookings s)
                   = bookings s"
    by (simp add: map_idI)
  have "find (\<lambda>b. bk_id b = ?n) (bookings s @ [?C]) = Some ?C"
    using fresh by (intro find_append_last) (simp_all add: row_fields)
  then have ib: "itemBooking s2 ?I = Some ?C"
    by (simp add: itemBooking_def bs2 old row_fields)
  let ?Q = "\<lambda>b. list_ex (\<lambda>item. bi_bookingId item = bk_id b \<and> bi_roomId item = room_id (prep_room p) \<and>
                    (case itemBooking s2 item of
                       None \<Rightarrow> False
                     | Some b' \<Rightarrow> bk_checkIn b' \<le> checkOut \<and> bk_checkOut b' \<ge> checkIn))
                  (bookingItems s2)"
  have "?I \<in> set (bookingItems s2)" by (simp add: is2)
  moreover have "bi_bookingId ?I = bk_id ?C" "bi_roomId ?I = room_id (prep_room p)"
    "bk_checkIn ?C \<le> checkOut" "bk_checkOut ?C \<ge> checkIn"
    using pd dates(3) by (simp_all add: row_fields)
  ultimately have "?Q ?C" using ib by (auto simp add: list_ex_iff)
  moreover have "?C \<in> set (bookings s2)" by (simp add: bs2)
  ultimately have "find ?Q (bookings s2) \<noteq> None"
    by (auto simp add: find_None_iff)
  then obtain b' where "existingBooking s2 (room_id (prep_room p)) checkIn checkOut = Some b'"
    by (auto simp add: existingBooking_def)
  from createBooking_existing[OF this room(2) dates(1,2)] show ?thesis .
qed

lemma createBooking_missing_iff:
  "fst (createBooking rej e s req) = Fail 400 ''Missing required fields'' \<longleftrightarrow>
     (\<exists>u. req_user req = Some u \<and> user_id u \<noteq> 0 \<and>
        (req_roomId req = None \<or> req_roomId req = Some 0 \<or> req_checkInDate req = None \<or>
         req_checkOutDate req = None \<or> req_guests req = None \<or> req_guests req = Some 0 \<or>
         req_guestName req = [] \<or> req_guestEmail req = []))"
proof (cases "createBooking_check rej e s req")
  case (Inl r)
  then have "fst (createBooking rej e s req) = r" by (simp add: createBooking_def)
  with Inl show ?thesis
    unfolding createBooking_check_def
    by (auto split: option.splits if_splits sum.splits prod.splits)
next
  case (Inr p)
  then have w: "createBooking rej e s req = createBooking_write rej s p"
    by (simp add: createBooking_def)
  have "fst (createBooking_write rej s p) \<noteq> Fail 400 ''Missing required fields''"
    by (auto simp add: createBooking_write_def Let_def split: sum.splits)
  moreover from Inr have "\<not> (\<exists>u. req_user req = Some u \<and> user_id u \<noteq> 0 \<and>
        (req_roomId req = None \<or> req_roomId req = Some 0 \<or> req_checkInDate req = None \<or>
         req_checkOutDate req = None \<or> req_guests req = None \<or> req_guests req = Some 0 \<or>
         req_guestName req = [] \<or> req_guestEmail req = []))"
    unfolding createBooking_check_def
    by (auto split: option.splits if_splits sum.splits prod.splits)
  ultimately show ?thesis using w by simp
qed

lemma createBooking_inverted:
  assumes "req_user req = Some u" "user_id u \<noteq> 0"
      and "req_roomId req = Some roomId" "roomId \<noteq> 0"
      and "req_checkInDate req = Some checkIn" "req_checkOutDate req = Some checkOut"
      and "req_guests req = Some g" "g \<noteq> 0"
      and "req_guestName req \<noteq> []" "req_guestEmail req \<noteq> []"
      and "checkOut \<le> checkIn"
      and "RoomFindUnique \<notin> rej" "BookingFindFirst \<notin> rej" "RoomTypeFindUnique \<notin> rej"
          "BookingCreate \<notin> rej" "RoomUpdate \<notin> rej"
      and "find (\<lambda>r. room_id r = roomId) (rooms s) = Some room"
      and "room_status room = ''available''"
      and "existingBooking s roomId checkIn checkOut = None"
      and "find (\<lambda>t. rt_id t = room_roomTypeId room) (roomTypes s) = Some roomType"
  shows "createBooking rej e s req =
     (let p = \<lparr> prep_user = u, prep_room = room, prep_roomType = Some roomType,
                prep_checkIn = checkIn, prep_checkOut = checkOut,
                prep_guestName = req_guestName req, prep_guestEmail = req_guestEmail req,
                prep_specialRequests = req_specialRequests req,
                prep_price = \<lparr> dailyPrices = [], subtotal = 0, totalDiscount = 0,
                               totalSurcharge = 0, totalPrice = 0 \<rparr> \<rparr>;
          booking = bookingRow s p;
          item = bookingItemRow s p (rt_basePrice roomType)
      in (Success 201 \<lparr> created_booking = booking, created_item = item,
                         created_price = prep_price p \<rparr>,
          (bookingCreate s booking item)
             \<lparr> rooms := map (\<lambda>r. if room_id r = roomId then r\<lparr>room_status := ''booked''\<rparr> else r)
                             (rooms s) \<rparr>))"
proof -
  let ?empty = "\<lparr> dailyPrices = [], subtotal = 0, totalDiscount = 0,
                  totalSurcharge = 0, totalPrice = 0::rat \<rparr>"
  let ?p = "\<lparr> prep_user = u, prep_room = room, prep_roomType = Some roomType,
                prep_checkIn = checkIn, prep_checkOut = checkOut,
                prep_guestName = req_guestName req, prep_guestEmail = req_guestEmail req,
                prep_specialRequests = req_specialRequests req,
                prep_price = ?empty \<rparr>"
  have calc: "calculateTotalPrice rej e s \<lparr> roomTypeId = room_roomTypeId room,
      checkInDate = checkIn, checkOutDate = checkOut, guests = g \<rparr> = Inr ?empty"
    using assms(11,14,20) by (intro calculateTotalPrice_empty) simp_all
  with assms have chk: "createBooking_check rej e s req = Inr ?p"
    by (simp add: createBooking_check_def)
  from find_room_id[OF assms(17)] have id: "room_id room = roomId" by simp
  let ?s1 = "bookingCreate s (bookingRow s ?p) (bookingItemRow s ?p (rt_basePrice roomType))"
  have rooms1: "rooms ?s1 = rooms s" by (simp add: bookingCreate_def)
  with assms(17) have "find (\<lambda>r. room_id r = roomId) (rooms ?s1) = Some room" by simp
  from updateRoomStatus_found[OF this, of "''booked''"] rooms1
  have upd: "updateRoomStatus ?s1 roomId ''booked'' =
          Inr (?s1\<lparr>rooms := map (\<lambda>r. if room_id r = roomId
                                        then r\<lparr>room_status := ''booked''\<rparr> else r) (rooms s)\<rparr>)"
    by simp
  have pn: "pricePerNightOf ?empty (Some roomType) = Inr (rt_basePrice roomType)"
    by (simp add: pricePerNightOf_def)
  from chk pn upd id assms(15,16) show ?thesis
    by (simp add: createBooking_def createBooking_write_def Let_def)
qed

section \<open>Claims about reservations\<close>

text \<open>
  Claim C7, amended. A reserve call that answers with an error has left the store
  unchanged, unless the call that was rejected is the update of the room: then the
  reservation and its stay item have been inserted and no room has been changed. A reserve
  call that succeeds has inserted exactly one reservation, confirmed, with exactly one
  stay item, and has set the status of the requested room to booked; nothing else has
  changed.
\<close>

theorem reserve_writes:
  assumes "createBooking rej e s req = (reply, s')"
  shows "(case reply of
            Fail code msg \<Rightarrow>
              s' = s \<or>
              (RoomUpdate \<in> rej \<and>
               (\<exists>booking item. s' = bookingCreate s booking item \<and>
                   bi_bookingId item = bk_id booking \<and> req_roomId req = Some (bi_roomId item)))
          | Success code c \<Rightarrow>
              code = 201 \<and> RoomUpdate \<notin> rej \<and>
              s' = (bookingCreate s (created_booking c) (created_item c))
                     \<lparr> rooms := map (\<lambda>r. if room_id r = bi_roomId (created_item c)
                                          then r\<lparr>room_status := ''booked''\<rparr> else r) (rooms s) \<rparr> \<and>
              bi_bookingId (created_item c) = bk_id (created_booking c) \<and>
              bk_status (created_booking c) = ''confirmed'' \<and>
              req_roomId req = Some (bi_roomId (created_item c)))"
proof (cases "createBooking_check rej e s req")
  case (Inl r)
  with assms have "reply = r" "s' = s" by (simp_all add: createBooking_def)
  moreover from Inl have "\<exists>code msg. r = Fail code msg"
    unfolding createBooking_check_def
    by (auto split: option.splits if_splits sum.splits prod.splits)
  ultimately show ?thesis by auto
next
  case (Inr p)
  with assms have w: "createBooking_write rej s p = (reply, s')"
    by (simp add: createBooking_def)
  note room = createBooking_check_room[OF Inr]
  from createBooking_write_cases[OF room(1) w] consider
      (unchanged) m where "reply = Fail 500 m" "s' = s"
    | (torn) m perNight where "reply = Fail 500 m" "RoomUpdate \<in> rej"
        "s' = bookingCreate s (bookingRow s p) (bookingItemRow s p perNight)"
    | (committed) perNight where "RoomUpdate \<notin> rej"
        "reply = Success 201 \<lparr> created_booking = bookingRow s p,
                   created_item = bookingItemRow s p perNight, created_price = prep_price p \<rparr>"
        "s' = (bookingCreate s (bookingRow s p) (bookingItemRow s p perNight))
                   \<lparr> rooms := map (\<lambda>r. if room_id r = room_id (prep_room p)
                                        then r\<lparr>room_status := ''booked''\<rparr> else r) (rooms s) \<rparr>"
    by blast
  then show ?thesis
  proof cases
    case unchanged
    then show ?thesis by simp
  next
    case torn
    from torn room(2) show ?thesis
      by (auto intro!: exI[of _ "bookingRow s p"] exI[of _ "bookingItemRow s p perNight"]
            simp add: row_fields)
  next
    case committed
    with room(2) show ?thesis by (simp add: row_fields)
  qed
qed

text \<open>
  Claim C7 as stated fails: when the update of the room is rejected, the call answers
  with an error, yet the reservation and its item are in the store and the room is
  unchanged.
\<close>

theorem reserve_writes_counterexample:
  "\<not> succeeded (fst (createBooking {RoomUpdate} ex_env ex_db (ex_request dec20 dec22))) \<and>
   bookings ex_db = [] \<and>
   map bk_status (bookings (snd (createBooking {RoomUpdate} ex_env ex_db (ex_request dec20 dec22))))
     = [''confirmed''] \<and>
   map bi_roomId (bookingItems (snd (createBooking {RoomUpdate} ex_env ex_db (ex_request dec20 dec22))))
     = [1] \<and>
   rooms (snd (createBooking {RoomUpdate} ex_env ex_db (ex_request dec20 dec22))) = rooms ex_db"
  by code_simp

text \<open>A successful call and a call that fails before the writes.\<close>

theorem reserve_writes_witness:
  "succeeded (fst (createBooking {} ex_env ex_db (ex_request dec20 dec22))) \<and>
   status (fst (createBooking {} ex_env ex_db (ex_request dec20 dec22))) = 201 \<and>
   ex_db_reserved =
     (bookingCreate ex_db
        (created_booking (payload (fst (createBooking {} ex_env ex_db (ex_request dec20 dec22)))))
        (created_item (payload (fst (createBooking {} ex_env ex_db (ex_request dec20 dec22))))))
     \<lparr> rooms := [ex_room\<lparr>room_status := ''booked''\<rparr>] \<rparr> \<and>
   fst (createBooking {BookingFindFirst} ex_env ex_db (ex_request dec20 dec22))
     = Fail 500 ''Error creating booking'' \<and>
   snd (createBooking {BookingFindFirst} ex_env ex_db (ex_request dec20 dec22)) = ex_db"
proof -
  let ?R = "createBooking {} ex_env ex_db (ex_request dec20 dec22)"
  let ?F = "createBooking {BookingFindFirst} ex_env ex_db (ex_request dec20 dec22)"
  have ok: "succeeded (fst ?R)" by code_simp
  then obtain code c where r: "fst ?R = Success code c" by (cases "fst ?R") simp_all
  have room: "bi_roomId (created_item (payload (fst ?R))) = 1" "rooms ex_db = [ex_room]"
    "room_id ex_room = 1"
    by code_simp+
  have "?R = (fst ?R, snd ?R)" by simp
  from reserve_writes[OF this] r room
  have a: "code = 201 \<and> snd ?R = (bookingCreate ex_db (created_booking c) (created_item c))
                 \<lparr> rooms := [ex_room\<lparr>room_status := ''booked''\<rparr>] \<rparr>"
    by simp
  have f: "fst ?F = Fail 500 ''Error creating booking''" "RoomUpdate \<notin> {BookingFindFirst}"
    by code_simp+
  have "?F = (fst ?F, snd ?F)" by simp
  from reserve_writes[OF this] f have b: "snd ?F = ex_db" by simp
  from ok r a b f show ?thesis by (simp add: ex_db_reserved_def)
qed

text \<open>
  What a successful reserve stores. The price per night of the stay item is the total of
  the first priced night when that total is not 0, and the base price of the category when
  no night is priced or when the total of the first night is 0. The total of a night is
  its base price plus its weekend, seasonal and occupancy surcharges. The night count of
  the item is the number of priced nights, and the total amount of the reservation is the
  discounted total of the price calculation.
\<close>

lemma stored_item_fields:
  assumes "createBooking rej e s req = (Success code c, s')"
  shows "\<exists>room roomType checkIn checkOut g.
      req_roomId req = Some (room_id room) \<and> req_checkInDate req = Some checkIn \<and>
      req_checkOutDate req = Some checkOut \<and> req_guests req = Some g \<and>
      find (\<lambda>r. room_id r = room_id room) (rooms s) = Some room \<and>
      find (\<lambda>t. rt_id t = room_roomTypeId room) (roomTypes s) = Some roomType \<and>
      calculateTotalPrice rej e s \<lparr> roomTypeId = room_roomTypeId room, checkInDate = checkIn,
          checkOutDate = checkOut, guests = g \<rparr> = Inr (created_price c) \<and>
      bi_pricePerNight (created_item c) =
        (case dailyPrices (created_price c) of
           [] \<Rightarrow> rt_basePrice roomType
         | night # _ \<Rightarrow> if dailyTotal night = 0 then rt_basePrice roomType else dailyTotal night) \<and>
      (case dailyPrices (created_price c) of
         [] \<Rightarrow> True
       | night # _ \<Rightarrow> dailyTotal night = basePrice night + weekendSurcharge night
                        + seasonalSurcharge night + occupancySurcharge night) \<and>
      bi_nights (created_item c) = int (length (dailyPrices (created_price c))) \<and>
      bk_totalAmount (created_booking c) = totalPrice (created_price c) \<and>
      totalPrice (created_price c) = subtotal (created_price c) - totalDiscount (created_price c)"
proof -
  from assms obtain p perNight roomType where
    chk: "createBooking_check rej e s req = Inr p" and
    rt: "find (\<lambda>t. rt_id t = room_roomTypeId (prep_room p)) (roomTypes s) = Some roomType" and
    pn: "pricePerNightOf (prep_price p) (Some roomType) = Inr perNight" and
    c: "c = \<lparr> created_booking = bookingRow s p, created_item = bookingItemRow s p perNight,
           created_price = prep_price p \<rparr>"
    by (rule createBooking_Success)
  note room = createBooking_check_room[OF chk]
  from chk obtain checkIn checkOut g where
    req: "req_checkInDate req = Some checkIn" "req_checkOutDate req = Some checkOut"
      "req_guests req = Some g" and
    calc: "calculateTotalPrice rej e s \<lparr> roomTypeId = room_roomTypeId (prep_room p),
             checkInDate = checkIn, checkOutDate = checkOut, guests = g \<rparr> = Inr (prep_price p)"
    by (elim createBooking_check_Inr) (metis Prepared.select_convs(2))
  from calc have tot: "totalPrice (prep_price p) = subtotal (prep_price p) - totalDiscount (prep_price p)"
    by (elim calculateTotalPrice_Inr)
  note first = first_night_total[OF calc]
  from pn have per: "perNight =
        (case dailyPrices (prep_price p) of
           [] \<Rightarrow> rt_basePrice roomType
         | night # _ \<Rightarrow> if dailyTotal night = 0 then rt_basePrice roomType else dailyTotal night)"
    by (simp add: pricePerNightOf_Some)
  show ?thesis
    apply (rule exI[of _ "prep_room p"], rule exI[of _ roomType], rule exI[of _ checkIn],
           rule exI[of _ checkOut], rule exI[of _ g])
    using room req rt calc tot first per c
    by (simp add: row_fields)
qed

text \<open>
  A stay from Friday, December 19 to Sunday, December 21: the nights cost 120 and 135, the
  item stores 120 for 2 nights, and the total amount is 255, not 240.
\<close>

lemma stored_item_fields_example:
  "succeeded (fst (createBooking {} ex_env ex_db (ex_request dec19 dec21))) \<and>
   map dailyTotal (dailyPrices (created_price (payload
       (fst (createBooking {} ex_env ex_db (ex_request dec19 dec21)))))) = [120, 135] \<and>
   bi_pricePerNight (created_item (payload
       (fst (createBooking {} ex_env ex_db (ex_request dec19 dec21))))) = 120 \<and>
   bi_nights (created_item (payload
       (fst (createBooking {} ex_env ex_db (ex_request dec19 dec21))))) = 2 \<and>
   bk_totalAmount (created_booking (payload
       (fst (createBooking {} ex_env ex_db (ex_request dec19 dec21))))) = 255"
proof -
  let ?R = "createBooking {} ex_env ex_db (ex_request dec19 dec21)"
  have ok: "succeeded (fst ?R)" by code_simp
  then obtain code c where r: "fst ?R = Success code c" by (cases "fst ?R") simp_all
  then have R: "?R = (Success code c, snd ?R)" by (metis prod.collapse)
  have v: "map dailyTotal (dailyPrices (created_price (payload (fst ?R)))) = [120, 135]"
    "totalPrice (created_price (payload (fst ?R))) = 255"
    by code_simp+
  from stored_item_fields[OF R] r v
  have "bi_pricePerNight (created_item c) = 120 \<and> bi_nights (created_item c) = 2 \<and>
        bk_totalAmount (created_booking c) = 255"
    by (auto split: list.splits dest: map_eq_imp_length_eq)
  with ok r v show ?thesis by simp
qed

text \<open>
  Claim C10. The stay item of a successful reserve with at least one priced night stores
  as price per night the total of the first night. The handler does not when that total
  is 0: for a stay whose first night has an override of price 0 the nights are priced 0
  and 135, and the item stores 100, the base price of the category. The fallback is
  written with \<^verbatim>\<open>||\<close>, which also replaces a total of 0; the resolution of the base price
  writes its fallback with \<^verbatim>\<open>??\<close> and keeps the 0 of the override.
\<close>

theorem stay_item_price_free_night:
  "succeeded (fst (createBooking {} ex_env ex_db_free_night (ex_request dec20 dec22))) \<and>
   getDailyBasePrice {} ex_env ex_db_free_night ex_type dec20 = Inr 0 \<and>
   rt_basePrice ex_type = 100 \<and>
   map dailyTotal (dailyPrices (created_price (payload
       (fst (createBooking {} ex_env ex_db_free_night (ex_request dec20 dec22)))))) = [0, 135] \<and>
   bi_pricePerNight (created_item (payload
       (fst (createBooking {} ex_env ex_db_free_night (ex_request dec20 dec22))))) = 100 \<and>
   bi_nights (created_item (payload
       (fst (createBooking {} ex_env ex_db_free_night (ex_request dec20 dec22))))) = 2 \<and>
   bk_totalAmount (created_booking (payload
       (fst (createBooking {} ex_env ex_db_free_night (ex_request dec20 dec22))))) = 135"
  by code_simp

text \<open>
  Claim C5, amended. Neither the price calculation nor the reserve handler compares the
  two dates. A price calculation with check-out at or before check-in, for a category that
  exists, returns the empty breakdown with subtotal, discount and total 0. The reserve
  handler answers 400 \<open>Missing required fields\<close>, before any read or write, exactly when
  the request is authenticated and a required field is missing (or is 0 or empty). A
  complete, authenticated request with check-out at or before check-in, for a room that
  exists, has the status \<open>available\<close> and has no booking that overlaps the two dates, and
  whose category exists, is answered 201 when the store rejects no call: it creates a
  reservation of 0 nights with total amount 0, an item with the base price of the
  category as price per night, and sets the room to \<open>booked\<close>.
\<close>

theorem date_order_not_validated:
  "(\<forall>roomType. checkOutDate params \<le> checkInDate params \<and> RoomTypeFindUnique \<notin> rej \<and>
       find (\<lambda>t. rt_id t = roomTypeId params) (roomTypes s) = Some roomType \<longrightarrow>
       calculateTotalPrice rej e s params =
         Inr \<lparr> dailyPrices = [], subtotal = 0, totalDiscount = 0, totalSurcharge = 0,
               totalPrice = 0 \<rparr>) \<and>
   (\<forall>u. req_user req = Some u \<and> user_id u \<noteq> 0 \<and>
      (req_roomId req = None \<or> req_roomId req = Some 0 \<or> req_checkInDate req = None \<or>
       req_checkOutDate req = None \<or> req_guests req = None \<or> req_guests req = Some 0 \<or>
       req_guestName req = [] \<or> req_guestEmail req = []) \<longrightarrow>
      createBooking rej e s req = (Fail 400 ''Missing required fields'', s)) \<and>
   (fst (createBooking rej e s req) = Fail 400 ''Missing required fields'' \<longrightarrow>
      (\<exists>u. req_user req = Some u \<and> user_id u \<noteq> 0 \<and>
         (req_roomId req = None \<or> req_roomId req = Some 0 \<or> req_checkInDate req = None \<or>
          req_checkOutDate req = None \<or> req_guests req = None \<or> req_guests req = Some 0 \<or>
          req_guestName req = [] \<or> req_guestEmail req = []))) \<and>
   (\<forall>code c s' checkIn checkOut.
      createBooking rej e s req = (Success code c, s') \<and> req_checkInDate req = Some checkIn \<and>
      req_checkOutDate req = Some checkOut \<and> checkOut \<le> checkIn \<longrightarrow>
      bk_checkIn (created_booking c) = checkIn \<and> bk_checkOut (created_booking c) = checkOut \<and>
      bk_totalAmount (created_booking c) = 0 \<and> bi_nights (created_item c) = 0 \<and>
      dailyPrices (created_price c) = []) \<and>
   (\<forall>u roomId checkIn checkOut g room roomType.
      req_user req = Some u \<and> user_id u \<noteq> 0 \<and>
      req_roomId req = Some roomId \<and> roomId \<noteq> 0 \<and>
      req_checkInDate req = Some checkIn \<and> req_checkOutDate req = Some checkOut \<and>
      req_guests req = Some g \<and> g \<noteq> 0 \<and> req_guestName req \<noteq> [] \<and> req_guestEmail req \<noteq> [] \<and>
      checkOut \<le> checkIn \<and>
      RoomFindUnique \<notin> rej \<and> BookingFindFirst \<notin> rej \<and> RoomTypeFindUnique \<notin> rej \<and>
      BookingCreate \<notin> rej \<and> RoomUpdate \<notin> rej \<and>
      find (\<lambda>r. room_id r = roomId) (rooms s) = Some room \<and>
      room_status room = ''available'' \<and>
      existingBooking s roomId checkIn checkOut = None \<and>
      find (\<lambda>t. rt_id t = room_roomTypeId room) (roomTypes s) = Some roomType \<longrightarrow>
      (\<exists>c s'. createBooking rej e s req = (Success 201 c, s') \<and>
         bk_checkIn (created_booking c) = checkIn \<and>
         bk_checkOut (created_booking c) = checkOut \<and>
         bk_status (created_booking c) = ''confirmed'' \<and>
         bk_totalAmount (created_booking c) = 0 \<and>
         bi_roomId (created_item c) = roomId \<and>
         bi_nights (created_item c) = 0 \<and>
         bi_pricePerNight (created_item c) = rt_basePrice roomType \<and>
         created_price c = \<lparr> dailyPrices = [], subtotal = 0, totalDiscount = 0,
                              totalSurcharge = 0, totalPrice = 0 \<rparr> \<and>
         bookings s' = bookings s @ [created_booking c] \<and>
         bookingItems s' = bookingItems s @ [created_item c] \<and>
         rooms s' = map (\<lambda>r. if room_id r = roomId then r\<lparr>room_status := ''booked''\<rparr> else r)
                        (rooms s)))"
proof -
  have pricing: "calculateTotalPrice rej e s params =
         Inr \<lparr> dailyPrices = [], subtotal = 0, totalDiscount = 0, totalSurcharge = 0,
               totalPrice = 0 \<rparr>"
    if "checkOutDate params \<le> checkInDate params \<and> RoomTypeFindUnique \<notin> rej \<and>
       find (\<lambda>t. rt_id t = roomTypeId params) (roomTypes s) = Some roomType" for roomType
    using that calculateTotalPrice_empty by blast
  have missing: "createBooking rej e s req = (Fail 400 ''Missing required fields'', s)"
    if "req_user req = Some u \<and> user_id u \<noteq> 0 \<and>
      (req_roomId req = None \<or> req_roomId req = Some 0 \<or> req_checkInDate req = None \<or>
       req_checkOutDate req = None \<or> req_guests req = None \<or> req_guests req = Some 0 \<or>
       req_guestName req = [] \<or> req_guestEmail req = [])" for u
    using that
    by (auto simp add: createBooking_def createBooking_check_def split: option.splits)
  have only: "\<exists>u. req_user req = Some u \<and> user_id u \<noteq> 0 \<and>
         (req_roomId req = None \<or> req_roomId req = Some 0 \<or> req_checkInDate req = None \<or>
          req_checkOutDate req = None \<or> req_guests req = None \<or> req_guests req = Some 0 \<or>
          req_guestName req = [] \<or> req_guestEmail req = [])"
    if "fst (createBooking rej e s req) = Fail 400 ''Missing required fields''"
    using that by (simp only: createBooking_missing_iff)
  have inverted: "bk_checkIn (created_booking c) = checkIn \<and>
      bk_checkOut (created_booking c) = checkOut \<and>
      bk_totalAmount (created_booking c) = 0 \<and> bi_nights (created_item c) = 0 \<and>
      dailyPrices (created_price c) = []"
    if a: "createBooking rej e s req = (Success code c, s') \<and> req_checkInDate req = Some checkIn \<and>
      req_checkOutDate req = Some checkOut \<and> checkOut \<le> checkIn"
    for code c s' checkIn checkOut
  proof -
    from a have "createBooking rej e s req = (Success code c, s')" by simp
    then obtain p perNight roomType where
      chk: "createBooking_check rej e s req = Inr p" and
      rt: "find (\<lambda>t. rt_id t = room_roomTypeId (prep_room p)) (roomTypes s) = Some roomType" and
      c: "c = \<lparr> created_booking = bookingRow s p, created_item = bookingItemRow s p perNight,
           created_price = prep_price p \<rparr>"
      by (rule createBooking_Success)
    from chk a obtain g where
      calc: "calculateTotalPrice rej e s \<lparr> roomTypeId = room_roomTypeId (prep_room p),
               checkInDate = checkIn, checkOutDate = checkOut, guests = g \<rparr> = Inr (prep_price p)"
      and dates: "prep_checkIn p = checkIn" "prep_checkOut p = checkOut"
      by (elim createBooking_check_Inr)
         (metis Prepared.select_convs(2) Prepared.select_convs(4) Prepared.select_convs(5)
            option.inject)
    from calc have nr: "RoomTypeFindUnique \<notin> rej"
      by (auto simp add: calculateTotalPrice_def split: if_splits)
    from a have le: "checkOut \<le> checkIn" by simp
    from calculateTotalPrice_empty[where params = "\<lparr> roomTypeId = room_roomTypeId (prep_room p),
               checkInDate = checkIn, checkOutDate = checkOut, guests = g \<rparr>"
               and rej = rej and s = s and roomType = roomType and e = e]
      le nr rt calc
    have "prep_price p = \<lparr> dailyPrices = [], subtotal = 0, totalDiscount = 0,
               totalSurcharge = 0, totalPrice = 0 \<rparr>"
      by simp
    then have "dailyPrices (prep_price p) = []" "totalPrice (prep_price p) = 0" by simp_all
    with c dates show ?thesis by (simp add: row_fields)
  qed
  have accepted: "\<exists>c s'. createBooking rej e s req = (Success 201 c, s') \<and>
         bk_checkIn (created_booking c) = checkIn \<and>
         bk_checkOut (created_booking c) = checkOut \<and>
         bk_status (created_booking c) = ''confirmed'' \<and>
         bk_totalAmount (created_booking c) = 0 \<and>
         bi_roomId (created_item c) = roomId \<and>
         bi_nights (created_item c) = 0 \<and>
         bi_pricePerNight (created_item c) = rt_basePrice roomType \<and>
         created_price c = \<lparr> dailyPrices = [], subtotal = 0, totalDiscount = 0,
                              totalSurcharge = 0, totalPrice = 0 \<rparr> \<and>
         bookings s' = bookings s @ [created_booking c] \<and>
         bookingItems s' = bookingItems s @ [created_item c] \<and>
         rooms s' = map (\<lambda>r. if room_id r = roomId then r\<lparr>room_status := ''booked''\<rparr> else r)
                        (rooms s)"
    if a: "req_user req = Some u \<and> user_id u \<noteq> 0 \<and>
      req_roomId req = Some roomId \<and> roomId \<noteq> 0 \<and>
      req_checkInDate req = Some checkIn \<and> req_checkOutDate req = Some checkOut \<and>
      req_guests req = Some g \<and> g \<noteq> 0 \<and> req_guestName req \<noteq> [] \<and> req_guestEmail req \<noteq> [] \<and>
      checkOut \<le> checkIn \<and>
      RoomFindUnique \<notin> rej \<and> BookingFindFirst \<notin> rej \<and> RoomTypeFindUnique \<notin> rej \<and>
      BookingCreate \<notin> rej \<and> RoomUpdate \<notin> rej \<and>
      find (\<lambda>r. room_id r = roomId) (rooms s) = Some room \<and>
      room_status room = ''available'' \<and>
      existingBooking s roomId checkIn checkOut = None \<and>
      find (\<lambda>t. rt_id t = room_roomTypeId room) (roomTypes s) = Some roomType"
    for u roomId checkIn checkOut g room roomType
  proof -
    from a have id: "room_id room = roomId" using find_room_id by blast
    from a have "createBooking rej e s req =
     (let p = \<lparr> prep_user = u, prep_room = room, prep_roomType = Some roomType,
                prep_checkIn = checkIn, prep_checkOut = checkOut,
                prep_guestName = req_guestName req, prep_guestEmail = req_guestEmail req,
                prep_specialRequests = req_specialRequests req,
                prep_price = \<lparr> dailyPrices = [], subtotal = 0, totalDiscount = 0,
                               totalSurcharge = 0, totalPrice = 0 \<rparr> \<rparr>;
          booking = bookingRow s p;
          item = bookingItemRow s p (rt_basePrice roomType)
      in (Success 201 \<lparr> created_booking = booking, created_item = item,
                         created_price = prep_price p \<rparr>,
          (bookingCreate s booking item)
             \<lparr> rooms := map (\<lambda>r. if room_id r = roomId then r\<lparr>room_status := ''booked''\<rparr> else r)
                             (rooms s) \<rparr>))"
      by (intro createBooking_inverted[where g = g]) simp_all
    with id show ?thesis
      by (simp add: Let_def row_fields bookingCreate_def)
  qed
  from pricing missing only inverted accepted show ?thesis by blast
qed

text \<open>
  Claim C5 as stated fails: a stay from December 22 to December 20 is priced (at 0) and
  reserved.
\<close>

theorem date_order_not_validated_counterexample:
  "checkOutDate (stay dec22 dec20 2) \<le> checkInDate (stay dec22 dec20 2) \<and>
   calculateTotalPrice {} ex_env ex_db (stay dec22 dec20 2) =
     Inr \<lparr> dailyPrices = [], subtotal = 0, totalDiscount = 0, totalSurcharge = 0,
           totalPrice = 0 \<rparr> \<and>
   req_checkOutDate (ex_request dec22 dec20) = Some dec20 \<and>
   req_checkInDate (ex_request dec22 dec20) = Some dec22 \<and> dec20 \<le> dec22 \<and>
   succeeded (fst (createBooking {} ex_env ex_db (ex_request dec22 dec20))) \<and>
   bookings ex_db = [] \<and>
   map bk_totalAmount (bookings (snd (createBooking {} ex_env ex_db (ex_request dec22 dec20)))) = [0] \<and>
   map room_status (rooms (snd (createBooking {} ex_env ex_db (ex_request dec22 dec20)))) = [''booked'']"
  by code_simp

text \<open>The parts of the amended claim at the same stay.\<close>

theorem date_order_not_validated_witness:
  "checkOutDate (stay dec22 dec20 2) \<le> checkInDate (stay dec22 dec20 2) \<and>
   calculateTotalPrice {} ex_env ex_db (stay dec22 dec20 2) =
     Inr \<lparr> dailyPrices = [], subtotal = 0, totalDiscount = 0, totalSurcharge = 0,
           totalPrice = 0 \<rparr> \<and>
   createBooking {} ex_env ex_db ((ex_request dec22 dec20)\<lparr> req_guests := None \<rparr>)
     = (Fail 400 ''Missing required fields'', ex_db) \<and>
   (\<exists>u. req_user ((ex_request dec22 dec20)\<lparr> req_guests := None \<rparr>) = Some u \<and> user_id u \<noteq> 0) \<and>
   succeeded (fst (createBooking {} ex_env ex_db (ex_request dec22 dec20))) \<and>
   status (fst (createBooking {} ex_env ex_db (ex_request dec22 dec20))) = 201 \<and>
   bk_totalAmount (created_booking (payload
       (fst (createBooking {} ex_env ex_db (ex_request dec22 dec20))))) = 0 \<and>
   bi_nights (created_item (payload
       (fst (createBooking {} ex_env ex_db (ex_request dec22 dec20))))) = 0 \<and>
   bi_pricePerNight (created_item (payload
       (fst (createBooking {} ex_env ex_db (ex_request dec22 dec20))))) = rt_basePrice ex_type \<and>
   rooms (snd (createBooking {} ex_env ex_db (ex_request dec22 dec20)))
     = [ex_room\<lparr>room_status := ''booked''\<rparr>]"
proof -
  let ?R = "createBooking {} ex_env ex_db (ex_request dec22 dec20)"
  let ?q = "(ex_request dec22 dec20)\<lparr> req_guests := None \<rparr>"
  note inst1 = date_order_not_validated[where params = "stay dec22 dec20 2" and rej = "{}"
      and e = ex_env and s = ex_db and req = "ex_request dec22 dec20"]
  note inst2 = date_order_not_validated[where params = "stay dec22 dec20 2" and rej = "{}"
      and e = ex_env and s = ex_db and req = ?q]
  have le: "checkOutDate (stay dec22 dec20 2) \<le> checkInDate (stay dec22 dec20 2)"
    by (simp add: stay_def dec20_def dec22_def)
  have rt: "find (\<lambda>t. rt_id t = roomTypeId (stay dec22 dec20 2)) (roomTypes ex_db) = Some ex_type"
    by code_simp
  from inst1 le rt
  have a: "calculateTotalPrice {} ex_env ex_db (stay dec22 dec20 2) =
     Inr \<lparr> dailyPrices = [], subtotal = 0, totalDiscount = 0, totalSurcharge = 0,
           totalPrice = 0 \<rparr>"
    by blast
  have "req_user ?q = Some ex_user" "user_id ex_user \<noteq> 0" "req_guests ?q = None"
    by (simp_all add: ex_request_def ex_user_def)
  with inst2 have b: "createBooking {} ex_env ex_db ?q = (Fail 400 ''Missing required fields'', ex_db)"
    by blast
  then have "fst (createBooking {} ex_env ex_db ?q) = Fail 400 ''Missing required fields''"
    by simp
  with inst2 have b': "\<exists>u. req_user ?q = Some u \<and> user_id u \<noteq> 0"
    by blast
  have ok: "succeeded (fst ?R)" by code_simp
  then obtain code c where r: "fst ?R = Success code c" by (cases "fst ?R") simp_all
  then have R: "?R = (Success code c, snd ?R)" by (metis prod.collapse)
  have dates: "req_checkInDate (ex_request dec22 dec20) = Some dec22"
    "req_checkOutDate (ex_request dec22 dec20) = Some dec20" "dec20 \<le> dec22"
    by (simp_all add: ex_request_def dec20_def dec22_def)
  with inst1 R have d: "bk_totalAmount (created_booking c) = 0 \<and> bi_nights (created_item c) = 0"
    by blast
  have req: "req_user (ex_request dec22 dec20) = Some ex_user" "user_id ex_user \<noteq> 0"
    "req_roomId (ex_request dec22 dec20) = Some 1" "(1::int) \<noteq> 0"
    "req_guests (ex_request dec22 dec20) = Some 2" "(2::int) \<noteq> 0"
    "req_guestName (ex_request dec22 dec20) \<noteq> []" "req_guestEmail (ex_request dec22 dec20) \<noteq> []"
    by (simp_all add: ex_request_def ex_user_def)
  have calls: "RoomFindUnique \<notin> ({} :: store_call set)" "BookingFindFirst \<notin> ({} :: store_call set)"
    "RoomTypeFindUnique \<notin> ({} :: store_call set)" "BookingCreate \<notin> ({} :: store_call set)"
    "RoomUpdate \<notin> ({} :: store_call set)"
    by simp_all
  have store: "find (\<lambda>r. room_id r = 1) (rooms ex_db) = Some ex_room"
    "room_status ex_room = ''available''"
    "existingBooking ex_db 1 dec22 dec20 = None"
    "find (\<lambda>t. rt_id t = room_roomTypeId ex_room) (roomTypes ex_db) = Some ex_type"
    by code_simp+
  from inst1[THEN conjunct2, THEN conjunct2, THEN conjunct2, THEN conjunct2, rule_format,
      of ex_user 1 dec22 dec20 2 ex_room ex_type] req dates calls store
  obtain c' s' where acc: "?R = (Success 201 c', s')"
    "bi_pricePerNight (created_item c') = rt_basePrice ex_type"
    "rooms s' = map (\<lambda>r. if room_id r = 1 then r\<lparr>room_status := ''booked''\<rparr> else r) (rooms ex_db)"
    by blast
  from acc r have same: "code = 201" "c' = c" by simp_all
  from acc have "rooms (snd ?R) = [ex_room\<lparr>room_status := ''booked''\<rparr>]"
    by (simp add: ex_db_def ex_room_def)
  with le a b b' ok r d acc same show ?thesis by simp
qed

section \<open>Claims about cancellation\<close>

text \<open>
  Claim C6, amended. A cancel request fails with 404 when the reservation does not exist,
  and with 403 when the requester is neither the owner of the reservation nor an
  administrator or manager. Otherwise, when no store call is rejected and every room of
  its stay items exists, it succeeds, whatever the status of the reservation was, also
  when it was already cancelled: it sets the status of the reservation to cancelled and
  the status of every room of its stay items to available.
\<close>

theorem cancel_outcomes:
  "(BookingFindUnique \<notin> rej \<and> find (\<lambda>b. bk_id b = bookingId) (bookings s) = None \<longrightarrow>
      cancelBooking rej s user bookingId = (Fail 404 ''Booking not found'', s)) \<and>
   (\<forall>booking. BookingFindUnique \<notin> rej \<and>
      find (\<lambda>b. bk_id b = bookingId) (bookings s) = Some booking \<and>
      \<not> (\<exists>u. user = Some u \<and> (user_id u = bk_userId booking \<or> user_role u = ''ADMIN'' \<or>
                                 user_role u = ''MANAGER'')) \<longrightarrow>
      cancelBooking rej s user bookingId = (Fail 403 ''Not authorized to cancel this booking'', s)) \<and>
   (\<forall>booking. BookingFindUnique \<notin> rej \<and> BookingUpdate \<notin> rej \<and> RoomUpdate \<notin> rej \<and>
      find (\<lambda>b. bk_id b = bookingId) (bookings s) = Some booking \<and>
      (\<exists>u. user = Some u \<and> (user_id u = bk_userId booking \<or> user_role u = ''ADMIN'' \<or>
                               user_role u = ''MANAGER'')) \<and>
      bi_roomId ` {item \<in> set (bookingItems s). bi_bookingId item = bookingId}
        \<subseteq> room_id ` set (rooms s) \<longrightarrow>
      cancelBooking rej s user bookingId =
        (Success 200 (booking\<lparr>bk_status := ''cancelled''\<rparr>),
         s\<lparr> bookings := map (\<lambda>b. if bk_id b = bookingId then b\<lparr>bk_status := ''cancelled''\<rparr> else b)
                            (bookings s),
             rooms := map (\<lambda>r. if room_id r \<in> bi_roomId `
                                     {item \<in> set (bookingItems s). bi_bookingId item = bookingId}
                                then r\<lparr>room_status := ''available''\<rparr> else r)
                          (rooms s) \<rparr>))"
proof (intro conjI allI impI)
  assume "BookingFindUnique \<notin> rej \<and> find (\<lambda>b. bk_id b = bookingId) (bookings s) = None"
  then show "cancelBooking rej s user bookingId = (Fail 404 ''Booking not found'', s)"
    using cancelBooking_absent by blast
next
  fix booking
  assume a: "BookingFindUnique \<notin> rej \<and>
      find (\<lambda>b. bk_id b = bookingId) (bookings s) = Some booking \<and>
      \<not> (\<exists>u. user = Some u \<and> (user_id u = bk_userId booking \<or> user_role u = ''ADMIN'' \<or>
                                 user_role u = ''MANAGER''))"
  then have "BookingFindUnique \<notin> rej"
    "find (\<lambda>b. bk_id b = bookingId) (bookings s) = Some booking" by blast+
  note found = cancelBooking_found[OF this, of user]
  from a have na: "\<not> (\<exists>u. user = Some u \<and> (user_id u = bk_userId booking \<or>
      user_role u = ''ADMIN'' \<or> user_role u = ''MANAGER''))" by blast
  show "cancelBooking rej s user bookingId = (Fail 403 ''Not authorized to cancel this booking'', s)"
    unfolding found by (rule if_P[OF na])
next
  fix booking
  let ?items = "filter (\<lambda>item. bi_bookingId item = bookingId) (bookingItems s)"
  let ?ids = "bi_roomId ` {item \<in> set (bookingItems s). bi_bookingId item = bookingId}"
  assume a: "BookingFindUnique \<notin> rej \<and> BookingUpdate \<notin> rej \<and> RoomUpdate \<notin> rej \<and>
      find (\<lambda>b. bk_id b = bookingId) (bookings s) = Some booking \<and>
      (\<exists>u. user = Some u \<and> (user_id u = bk_userId booking \<or> user_role u = ''ADMIN'' \<or>
                               user_role u = ''MANAGER'')) \<and>
      ?ids \<subseteq> room_id ` set (rooms s)"
  then have f: "BookingFindUnique \<notin> rej"
    "find (\<lambda>b. bk_id b = bookingId) (bookings s) = Some booking" by blast+
  have items: "set ?items = {item \<in> set (bookingItems s). bi_bookingId item = bookingId}"
    by auto
  have rooms1: "rooms (setCancelled s bookingId) = rooms s" by (simp add: setCancelled_def)
  from a have "?ids \<subseteq> room_id ` set (rooms s)" by blast
  then have "bi_roomId ` set ?items \<subseteq> room_id ` set (rooms (setCancelled s bookingId))"
    by (simp only: items rooms1)
  from releaseRooms_all[OF this]
  have rel: "releaseRooms (setCancelled s bookingId) ?items =
      (True, (setCancelled s bookingId)
         \<lparr>rooms := map (\<lambda>r. if room_id r \<in> ?ids
                                then r\<lparr>room_status := ''available''\<rparr> else r) (rooms s) \<rparr>)"
    by (simp only: items rooms1)
  have st: "(setCancelled s bookingId)
         \<lparr>rooms := map (\<lambda>r. if room_id r \<in> ?ids
                                then r\<lparr>room_status := ''available''\<rparr> else r) (rooms s) \<rparr>
     = s\<lparr> bookings := map (\<lambda>b. if bk_id b = bookingId then b\<lparr>bk_status := ''cancelled''\<rparr> else b)
                            (bookings s),
          rooms := map (\<lambda>r. if room_id r \<in> ?ids
                                then r\<lparr>room_status := ''available''\<rparr> else r) (rooms s) \<rparr>"
    by (simp add: setCancelled_def)
  from a have auth: "\<not> \<not> (\<exists>u. user = Some u \<and> (user_id u = bk_userId booking \<or>
        user_role u = ''ADMIN'' \<or> user_role u = ''MANAGER''))"
    and nr: "BookingUpdate \<notin> rej" "RoomUpdate \<notin> rej" by blast+
  have "cancelBooking rej s user bookingId =
     (case releaseRooms (setCancelled s bookingId) ?items of
              (False, s2) \<Rightarrow> (Fail 500 ''Error cancelling booking'', s2)
            | (True, s2) \<Rightarrow> (Success 200 (booking\<lparr>bk_status := ''cancelled''\<rparr>), s2))"
    unfolding cancelBooking_found[OF f, of user] if_not_P[OF auth] if_not_P[OF nr(1)]
      if_not_P[OF nr(2)] by (rule refl)
  also have "\<dots> = (Success 200 (booking\<lparr>bk_status := ''cancelled''\<rparr>),
       (setCancelled s bookingId)
         \<lparr>rooms := map (\<lambda>r. if room_id r \<in> ?ids
                                then r\<lparr>room_status := ''available''\<rparr> else r) (rooms s) \<rparr>)"
    by (simp only: rel prod.case bool.case)
  finally show "cancelBooking rej s user bookingId =
        (Success 200 (booking\<lparr>bk_status := ''cancelled''\<rparr>),
         s\<lparr> bookings := map (\<lambda>b. if bk_id b = bookingId then b\<lparr>bk_status := ''cancelled''\<rparr> else b)
                            (bookings s),
             rooms := map (\<lambda>r. if room_id r \<in> ?ids
                                then r\<lparr>room_status := ''available''\<rparr> else r)
                          (rooms s) \<rparr>)"
    by (simp only: st)
qed

text \<open>
  Claim C6 as stated fails: cancelling a reservation that is already cancelled succeeds.
\<close>

theorem cancel_outcomes_counterexample:
  "map bk_id (bookings ex_db_cancelled) = [1] \<and>
   map bk_status (bookings ex_db_cancelled) = [''cancelled''] \<and>
   succeeded (fst (cancelBooking {} ex_db_cancelled (Some ex_user) 1)) \<and>
   status (fst (cancelBooking {} ex_db_cancelled (Some ex_user) 1)) = 200"
  by code_simp

text \<open>
  The three outcomes on the store that holds one confirmed reservation, and the success
  of a second cancel.
\<close>

theorem cancel_outcomes_witness:
  "cancelBooking {} ex_db_reserved (Some ex_user) 2 = (Fail 404 ''Booking not found'', ex_db_reserved) \<and>
   cancelBooking {} ex_db_reserved (Some ex_stranger) 1
     = (Fail 403 ''Not authorized to cancel this booking'', ex_db_reserved) \<and>
   succeeded (fst (cancelBooking {} ex_db_reserved (Some ex_user) 1)) \<and>
   map bk_status (bookings ex_db_reserved) = [''confirmed''] \<and>
   map room_status (rooms ex_db_reserved) = [''booked''] \<and>
   map bk_status (bookings ex_db_cancelled) = [''cancelled''] \<and>
   map room_status (rooms ex_db_cancelled) = [''available''] \<and>
   succeeded (fst (cancelBooking {} ex_db_cancelled (Some ex_user) 1)) \<and>
   snd (cancelBooking {} ex_db_cancelled (Some ex_user) 1) = ex_db_cancelled"
proof -
  have nr: "BookingFindUnique \<notin> ({} :: store_call set)" "BookingUpdate \<notin> ({} :: store_call set)"
    "RoomUpdate \<notin> ({} :: store_call set)"
    by simp_all
  have none: "find (\<lambda>b. bk_id b = 2) (bookings ex_db_reserved) = None"
    by code_simp
  obtain b where b: "find (\<lambda>b. bk_id b = 1) (bookings ex_db_reserved) = Some b"
    and owner: "bk_userId b = 7"
  proof -
    have "case find (\<lambda>b. bk_id b = 1) (bookings ex_db_reserved) of
            None \<Rightarrow> False | Some b \<Rightarrow> bk_userId b = 7"
      by code_simp
    then show ?thesis using that by (auto split: option.splits)
  qed
  obtain b' where b': "find (\<lambda>b. bk_id b = 1) (bookings ex_db_cancelled) = Some b'"
    and owner': "bk_userId b' = 7"
  proof -
    have "case find (\<lambda>b. bk_id b = 1) (bookings ex_db_cancelled) of
            None \<Rightarrow> False | Some b \<Rightarrow> bk_userId b = 7"
      by code_simp
    then show ?thesis using that by (auto split: option.splits)
  qed
  have fk: "bi_roomId ` {item \<in> set (bookingItems ex_db_reserved). bi_bookingId item = 1}
              \<subseteq> room_id ` set (rooms ex_db_reserved)"
    "bi_roomId ` {item \<in> set (bookingItems ex_db_cancelled). bi_bookingId item = 1}
              \<subseteq> room_id ` set (rooms ex_db_cancelled)"
    by code_simp+
  have users: "user_id ex_user = 7" "user_id ex_stranger = 8" "user_role ex_stranger = ''customer''"
    by (simp_all add: ex_user_def ex_stranger_def)
  from cancel_outcomes[where rej = "{}" and bookingId = 2 and s = ex_db_reserved
        and user = "Some ex_user"] nr none
  have a: "cancelBooking {} ex_db_reserved (Some ex_user) 2
             = (Fail 404 ''Booking not found'', ex_db_reserved)"
    by blast
  from cancel_outcomes[where rej = "{}" and bookingId = 1 and s = ex_db_reserved
        and user = "Some ex_stranger"] nr b owner users
  have f: "cancelBooking {} ex_db_reserved (Some ex_stranger) 1
     = (Fail 403 ''Not authorized to cancel this booking'', ex_db_reserved)"
    by simp
  from cancel_outcomes[where rej = "{}" and bookingId = 1 and s = ex_db_reserved
        and user = "Some ex_user"] nr b owner users fk
  have c: "succeeded (fst (cancelBooking {} ex_db_reserved (Some ex_user) 1))"
    by simp
  have again: "cancelBooking {} ex_db_cancelled (Some ex_user) 1 =
        (Success 200 (b'\<lparr>bk_status := ''cancelled''\<rparr>),
         ex_db_cancelled\<lparr> bookings := map (\<lambda>b. if bk_id b = 1 then b\<lparr>bk_status := ''cancelled''\<rparr> else b)
                            (bookings ex_db_cancelled),
             rooms := map (\<lambda>r. if room_id r \<in> bi_roomId `
                                     {item \<in> set (bookingItems ex_db_cancelled). bi_bookingId item = 1}
                                then r\<lparr>room_status := ''available''\<rparr> else r)
                          (rooms ex_db_cancelled) \<rparr>)"
    using cancel_outcomes[where rej = "{}" and bookingId = 1 and s = ex_db_cancelled
        and user = "Some ex_user"] nr b' owner' users fk
    by simp
  then have d: "succeeded (fst (cancelBooking {} ex_db_cancelled (Some ex_user) 1))" by simp
  have v: "map bk_status (bookings ex_db_reserved) = [''confirmed'']"
   "map room_status (rooms ex_db_reserved) = [''booked'']"
   "map bk_status (bookings ex_db_cancelled) = [''cancelled'']"
   "map room_status (rooms ex_db_cancelled) = [''available'']"
   "snd (cancelBooking {} ex_db_cancelled (Some ex_user) 1) = ex_db_cancelled"
    by code_simp+
  from a f c d v show ?thesis by simp
qed

section \<open>Claims about competing reserve calls\<close>

text \<open>
  Claim C9, amended. When reserve calls for one room are executed one after the other,
  every call that follows a successful one fails and leaves the store unchanged; a repeat
  of the successful request, when the lookup of the room is not rejected, is answered
  400, room not available. So 50 identical calls in sequence give one success and 49
  failures, and the status of the room is set to booked once. The handler holds no lock
  and opens no transaction between its availability check and its writes.
\<close>

theorem sequential_reserve:
  assumes "createBooking rej e s req = (Success code c, s1)"
      and "\<forall>q\<in>set later. req_roomId (snd q) = req_roomId req"
  shows "snd (reserveAll e s1 later) = s1 \<and>
         length (fst (reserveAll e s1 later)) = length later \<and>
         (\<forall>r\<in>set (fst (reserveAll e s1 later)). \<not> succeeded r) \<and>
         (RoomFindUnique \<notin> rej' \<longrightarrow>
            fst (reserveAll e s1 (replicate n (rej', req)))
              = replicate n (Fail 400 ''Room is not available for booking'') \<and>
            snd (reserveAll e s1 (replicate n (rej', req))) = s1)"
proof -
  from assms(1) obtain room where
    rid: "req_roomId req = Some (room_id room)" and
    booked: "find (\<lambda>r. room_id r = room_id room) (rooms s1)
               = Some (room\<lparr>room_status := ''booked''\<rparr>)"
    by (rule createBooking_Success_rooms)
  have st: "room_status (room\<lparr>room_status := ''booked''\<rparr>) \<noteq> ''available''" by simp
  from assms(2) rid have "\<forall>q\<in>set later. req_roomId (snd q) = Some (room_id room)" by simp
  note general = reserveAll_booked_room[OF booked st this]
  have same: "fst (reserveAll e s1 (replicate n (rej', req)))
              = replicate n (Fail 400 ''Room is not available for booking'') \<and>
            snd (reserveAll e s1 (replicate n (rej', req))) = s1"
    if nr: "RoomFindUnique \<notin> rej'"
  proof -
    from assms(1) obtain p where "createBooking_check rej e s req = Inr p"
      by (cases "createBooking_check rej e s req")
         (auto simp add: createBooking_def createBooking_check_def
               split: option.splits if_splits sum.splits prod.splits)
    from createBooking_check_wellformed[OF this] rid obtain u checkIn checkOut g where
      wf: "req_user req = Some u" "user_id u \<noteq> 0" "room_id room \<noteq> 0"
        "req_checkInDate req = Some checkIn" "req_checkOutDate req = Some checkOut"
        "req_guests req = Some g" "g \<noteq> 0" "req_guestName req \<noteq> []" "req_guestEmail req \<noteq> []"
      by auto
    from createBooking_booked_room(2)[OF booked st rid nr wf]
    have "createBooking rej' e s1 req = (Fail 400 ''Room is not available for booking'', s1)" .
    then show ?thesis by (rule reserveAll_replicate_fail)
  qed
  from general same show ?thesis by blast
qed

text \<open>
  Claim C9 as stated fails: two calls for the same room and the same dates whose checks
  both run before the first write both succeed, and the store holds two confirmed
  reservations of room 1 for December 20 to 22.
\<close>

theorem sequential_reserve_counterexample:
  "succeeded (fst (reserveInterleaved {} ex_env ex_db (ex_request dec20 dec22) (ex_request dec20 dec22))) \<and>
   succeeded (fst (snd (reserveInterleaved {} ex_env ex_db (ex_request dec20 dec22) (ex_request dec20 dec22)))) \<and>
   map bk_status (bookings (snd (snd
       (reserveInterleaved {} ex_env ex_db (ex_request dec20 dec22) (ex_request dec20 dec22)))))
     = [''confirmed'', ''confirmed''] \<and>
   map bk_checkIn (bookings (snd (snd
       (reserveInterleaved {} ex_env ex_db (ex_request dec20 dec22) (ex_request dec20 dec22)))))
     = [dec20, dec20] \<and>
   map bk_checkOut (bookings (snd (snd
       (reserveInterleaved {} ex_env ex_db (ex_request dec20 dec22) (ex_request dec20 dec22)))))
     = [dec22, dec22] \<and>
   map bi_bookingId (bookingItems (snd (snd
       (reserveInterleaved {} ex_env ex_db (ex_request dec20 dec22) (ex_request dec20 dec22)))))
     = [1, 2] \<and>
   map bi_roomId (bookingItems (snd (snd
       (reserveInterleaved {} ex_env ex_db (ex_request dec20 dec22) (ex_request dec20 dec22)))))
     = [1, 1]"
  by code_simp

text \<open>Fifty identical calls in sequence: the first succeeds, the other 49 are refused.\<close>

theorem sequential_reserve_witness:
  "succeeded (fst (createBooking {} ex_env ex_db (ex_request dec20 dec22))) \<and>
   fst (reserveAll ex_env ex_db
          (({}, ex_request dec20 dec22) # replicate 49 ({}, ex_request dec20 dec22)))
     = fst (createBooking {} ex_env ex_db (ex_request dec20 dec22))
         # replicate 49 (Fail 400 ''Room is not available for booking'') \<and>
   snd (reserveAll ex_env ex_db
          (({}, ex_request dec20 dec22) # replicate 49 ({}, ex_request dec20 dec22)))
     = ex_db_reserved \<and>
   map room_status (rooms ex_db_reserved) = [''booked''] \<and>
   map bk_status (bookings ex_db_reserved) = [''confirmed'']"
proof -
  let ?req = "ex_request dec20 dec22"
  let ?R = "createBooking {} ex_env ex_db ?req"
  have ok: "succeeded (fst ?R)" by code_simp
  then obtain code c where r: "fst ?R = Success code c" by (cases "fst ?R") simp_all
  then have R: "?R = (Success code c, ex_db_reserved)"
    by (simp add: ex_db_reserved_def prod_eq_iff)
  have nr: "RoomFindUnique \<notin> ({} :: store_call set)" by simp
  have "\<forall>q\<in>set ([] :: (store_call set \<times> CreateBookingRequest) list).
          req_roomId (snd q) = req_roomId ?req"
    by simp
  from sequential_reserve[OF R this, of "{}" 49] nr
  have rest: "fst (reserveAll ex_env ex_db_reserved (replicate 49 ({}, ?req)))
              = replicate 49 (Fail 400 ''Room is not available for booking'')"
    "snd (reserveAll ex_env ex_db_reserved (replicate 49 ({}, ?req))) = ex_db_reserved"
    by simp_all
  have v: "map room_status (rooms ex_db_reserved) = [''booked'']"
    "map bk_status (bookings ex_db_reserved) = [''confirmed'']"
    by code_simp+
  from ok R rest v show ?thesis
    by (simp add: reserveAll_Cons del: reserveAll.simps(2))
qed

section \<open>Claims about availability after a cancellation\<close>

text \<open>
  Claim C1: after a successful reserve and a successful cancel of the reservation, a
  second reserve of the same room for the same dates succeeds, and the availability query
  for those dates reports the room as available. The code does not do this: the query for
  an existing booking in \<^verbatim>\<open>createBooking\<close> and the count in \<^verbatim>\<open>isRoomAvailable\<close> do not
  look at the status of the booking, so the cancelled reservation still blocks the room.
  The theorem runs reserve, cancel and reserve on the example store.
\<close>

theorem reserve_cancel_reserve:
  "succeeded (fst (createBooking {} ex_env ex_db (ex_request dec20 dec22))) \<and>
   ex_db_reserved = snd (createBooking {} ex_env ex_db (ex_request dec20 dec22)) \<and>
   map bk_id (bookings ex_db_reserved) = [1] \<and>
   succeeded (fst (cancelBooking {} ex_db_reserved (Some ex_user) 1)) \<and>
   ex_db_cancelled = snd (cancelBooking {} ex_db_reserved (Some ex_user) 1) \<and>
   createBooking {} ex_env ex_db_cancelled (ex_request dec20 dec22)
     = (Fail 400 ''Room is already booked for the selected dates'', ex_db_cancelled) \<and>
   isRoomAvailable {} ex_db_cancelled 1 dec20 dec22 = Inr False"
  by code_simp

text \<open>
  Claim C2: the availability check reports a room unavailable exactly when a stay item of
  the room belongs to a reservation that is not cancelled and overlaps the requested dates,
  both boundaries included. The boundary rule holds in the code, and
  \<^verbatim>\<open>getAvailableRooms\<close> ignores cancelled reservations, but \<^verbatim>\<open>isRoomAvailable\<close> counts
  them: on the store whose only reservation is cancelled it reports room 1 unavailable
  while \<^verbatim>\<open>getAvailableRooms\<close> lists it. On the store whose reservation ends on
  December 22, a request that starts on December 22 finds the room unavailable.
\<close>

theorem cancelled_blocks_availability:
  "map bi_roomId (bookingItems ex_db_cancelled) = [1] \<and>
   map bk_status (bookings ex_db_cancelled) = [''cancelled''] \<and>
   isRoomAvailable {} ex_db_cancelled 1 dec20 dec22 = Inr False \<and>
   getAvailableRooms {} ex_db_cancelled 1 dec20 dec22 2 = Inr [ex_room] \<and>
   map bk_checkOut (bookings ex_db_reserved) = [dec22] \<and>
   isRoomAvailable {} ex_db_reserved 1 dec22 dec23 = Inr False \<and>
   getAvailableRooms {} ex_db_reserved 1 dec22 dec23 2 = Inr []"
  by code_simp

end
